theory Spec2Isabelle
  imports Main "HOL-Library.AList"
begin

section \<open>Strings and responses\<close>

text \<open>
  A Python \<^verbatim>\<open>str\<close> is a sequence of Unicode code points.  The texts of the script
  contain Hungarian letters, so a string is modelled as a list of code points rather than
  as a list of 8-bit characters.  \<open>ustr\<close> turns an ASCII literal into such a string; the
  accented letters are spliced in by their code points (a-acute = 225, e-acute = 233,
  i-acute = 237, o-acute = 243, A-acute = 193).
\<close>

type_synonym pystr = "nat list"

definition ustr :: "string \<Rightarrow> pystr" where
  "ustr s = map of_char s"

text \<open>
  \<^verbatim>\<open>PageType = requests.models.Response\<close>: the final response of a request, of which the
  script reads the status code (through \<^verbatim>\<open>raise_for_status\<close>) and the body text.
\<close>

record response =
  status_code :: nat
  body_text :: pystr

definition page_text :: "response \<Rightarrow> pystr" where
  "page_text page = body_text page"

section \<open>Regular expression search\<close>

text \<open>
  The three patterns of the script use literal characters and, in the feeding pattern, the
  greedy \<^verbatim>\<open>.*\<close>, which matches any run of characters other than the line feed (code
  point 10).  \<open>re_match p t\<close> matches \<open>p\<close> at the start of \<open>t\<close> with the priorities of a
  backtracking matcher and returns the length of the match; \<open>re_search\<close> is
  \<^verbatim>\<open>re.search\<close>: the leftmost match as a match object, or \<^verbatim>\<open>None\<close>.
\<close>

datatype re_item = Lit nat | DotStar

datatype match = Match nat nat

datatype pyval = PyNone | PyBool bool | PyMatch match

fun re_match :: "re_item list \<Rightarrow> pystr \<Rightarrow> nat option" where
  "re_match [] t = Some 0"
| "re_match (Lit c # p) [] = None"
| "re_match (Lit c # p) (x # t) =
     (if x = c then map_option Suc (re_match p t) else None)"
| "re_match (DotStar # p) [] = re_match p []"
| "re_match (DotStar # p) (x # t) =
     (if x \<noteq> 10
      then (case re_match (DotStar # p) t of
              Some n \<Rightarrow> Some (Suc n)
            | None \<Rightarrow> re_match p (x # t))
      else re_match p (x # t))"

fun re_search_from :: "re_item list \<Rightarrow> nat \<Rightarrow> pystr \<Rightarrow> pyval" where
  "re_search_from p i [] =
     (case re_match p [] of
        Some n \<Rightarrow> PyMatch (Match i (i + n))
      | None \<Rightarrow> PyNone)"
| "re_search_from p i (x # t) =
     (case re_match p (x # t) of
        Some n \<Rightarrow> PyMatch (Match i (i + n))
      | None \<Rightarrow> re_search_from p (Suc i) t)"

definition re_search :: "re_item list \<Rightarrow> pystr \<Rightarrow> pyval" where
  "re_search p t = re_search_from p 0 t"

text \<open>Truth value of a Python object, and \<^verbatim>\<open>not\<close>, which always yields a \<^verbatim>\<open>bool\<close>.\<close>

fun truthy :: "pyval \<Rightarrow> bool" where
  "truthy PyNone = False"
| "truthy (PyBool b) = b"
| "truthy (PyMatch m) = True"

definition py_not :: "pyval \<Rightarrow> pyval" where
  "py_not v = PyBool (\<not> truthy v)"

fun is_bool :: "pyval \<Rightarrow> bool" where
  "is_bool (PyBool b) = True"
| "is_bool v = False"

section \<open>Response classifiers\<close>

definition literal :: "pystr \<Rightarrow> re_item list" where
  "literal s = map Lit s"

text \<open>The pattern \<^verbatim>\<open>r"Valami baj van!"\<close>: no character of it is special in a pattern.\<close>

definition login_failure_phrase :: pystr where
  "login_failure_phrase = ustr ''Valami baj van!''"

definition login_failure_pattern :: "re_item list" where
  "login_failure_pattern = literal login_failure_phrase"

definition parse_login_status :: "response \<Rightarrow> pyval" where
  "parse_login_status response =
     py_not (re_search login_failure_pattern (page_text response))"

text \<open>The pattern \<^verbatim>\<open>"A tevedet ma mar tanitottad"\<close>, with its accents on e, a and i.\<close>

definition teach_success_phrase :: pystr where
  "teach_success_phrase =
     ustr ''A tev'' @ [233] @ ustr ''det ma m'' @ [225] @ ustr ''r tan'' @ [237] @ ustr ''tottad''"

definition teach_success_pattern :: "re_item list" where
  "teach_success_pattern = literal teach_success_phrase"

definition parse_teach_success :: "response \<Rightarrow> pyval" where
  "parse_teach_success response =
     re_search teach_success_pattern (page_text response)"

text \<open>The pattern \<^verbatim>\<open>r"Adok neki .* napra eleg ennivalot"\<close>, with its accents on e and o.\<close>

definition feeding_is_still_possible :: "re_item list" where
  "feeding_is_still_possible =
     literal (ustr ''Adok neki '') @ [DotStar] @
     literal (ustr '' napra el'' @ [233] @ ustr ''g ennival'' @ [243] @ ustr ''t'')"

definition parse_feed_success :: "response \<Rightarrow> pyval" where
  "parse_feed_success response =
     py_not (re_search feeding_is_still_possible (page_text response))"

text \<open>A text contains a phrase when the phrase occurs in it as a contiguous run.\<close>

fun starts_with :: "pystr \<Rightarrow> pystr \<Rightarrow> bool" where
  "starts_with t [] = True"
| "starts_with [] (c # s) = False"
| "starts_with (x # t) (c # s) = (x = c \<and> starts_with t s)"

fun contains :: "pystr \<Rightarrow> pystr \<Rightarrow> bool" where
  "contains [] s = starts_with [] s"
| "contains (x # t) s = (starts_with (x # t) s \<or> contains t s)"

section \<open>Parsed HTML\<close>

text \<open>
  A dictionary with string keys and values, in insertion order.  The tree that
  \<^verbatim>\<open>BeautifulSoup\<close> builds: a tag has a name, attributes and children; the other nodes are
  text (\<^verbatim>\<open>NavigableString\<close>) and nodes whose content is no part of a tag's text (comments,
  declarations).  The document itself is a tag.
\<close>

type_synonym dict = "(pystr \<times> pystr) list"

datatype node =
    Tag pystr dict "node list"
  | NavigableString pystr
  | Comment pystr

text \<open>All nodes below a node, in document order.\<close>

fun descendants :: "node \<Rightarrow> node list" where
  "descendants (Tag nm a cs) = concat (map (\<lambda>c. c # descendants c) cs)"
| "descendants (NavigableString s) = []"
| "descendants (Comment s) = []"

fun has_attr :: "pystr \<Rightarrow> pystr \<Rightarrow> node \<Rightarrow> bool" where
  "has_attr k v (Tag nm a cs) = (map_of a k = Some v)"
| "has_attr k v (NavigableString s) = False"
| "has_attr k v (Comment s) = False"

fun is_tag_named :: "pystr \<Rightarrow> node \<Rightarrow> bool" where
  "is_tag_named t (Tag nm a cs) = (nm = t)"
| "is_tag_named t (NavigableString s) = False"
| "is_tag_named t (Comment s) = False"

text \<open>
  \<^verbatim>\<open>soup.find(attrs={k: v})\<close>: the first tag below \<open>soup\<close> whose attribute \<open>k\<close> is \<open>v\<close>, or
  \<^verbatim>\<open>None\<close>; \<^verbatim>\<open>tag.find_all(t)\<close>: all tags named \<open>t\<close> below \<open>tag\<close>; \<^verbatim>\<open>tag.text\<close>: the texts
  below \<open>tag\<close>, joined.
\<close>

definition find_attrs :: "node \<Rightarrow> pystr \<Rightarrow> pystr \<Rightarrow> node option" where
  "find_attrs soup k v = List.find (has_attr k v) (descendants soup)"

definition find_all :: "node \<Rightarrow> pystr \<Rightarrow> node list" where
  "find_all tag t = filter (is_tag_named t) (descendants tag)"

fun get_text :: "node \<Rightarrow> pystr" where
  "get_text (Tag nm a cs) = concat (map get_text cs)"
| "get_text (NavigableString s) = s"
| "get_text (Comment s) = []"

section \<open>Exceptions, events and the world\<close>

text \<open>
  Every exception of the model is a subclass of \<^verbatim>\<open>Exception\<close>.  Exceptions raised inside
  a library are named by the library call that raises them:
  \<^item> \<open>HTTPError\<close>: \<^verbatim>\<open>raise_for_status\<close> on a 4xx or 5xx response;
  \<^item> \<open>RequestException\<close>: whatever the session method itself raises (connection failure,
    timeout, too many redirects), numbered by the environment;
  \<^item> \<open>AttributeError\<close>: \<^verbatim>\<open>getattr\<close> on the session;
  \<^item> \<open>KeyError\<close>: a missing dictionary key;
  \<^item> \<open>IntValueError\<close>: \<^verbatim>\<open>int\<close> of a text that is no integer literal;
  \<^item> \<open>EmptyMaxValueError\<close>: \<^verbatim>\<open>max\<close> of an empty list;
  \<^item> \<open>HeaderValueError\<close>: a mail header value of more than one line;
  \<^item> \<open>MessageError\<close>: whatever else the \<^verbatim>\<open>email\<close> package raises while the message is
    composed (\<^verbatim>\<open>ValueError\<close>, \<^verbatim>\<open>IndexError\<close>, \<^verbatim>\<open>UnicodeEncodeError\<close>);
  \<^item> \<open>SMTPException\<close>: whatever \<^verbatim>\<open>smtplib\<close> raises, numbered by the environment;
  \<^item> \<open>EOFError\<close>: \<^verbatim>\<open>input\<close> or \<^verbatim>\<open>getpass\<close> at the end of the input.

  Outside the model: interrupts (\<^verbatim>\<open>KeyboardInterrupt\<close> is no \<^verbatim>\<open>Exception\<close>), a failing
  \<^verbatim>\<open>print\<close>, and failures of constructors that do no input or output
  (\<^verbatim>\<open>requests.Session\<close>, \<^verbatim>\<open>ssl.create_default_context\<close>, \<^verbatim>\<open>BeautifulSoup\<close>,
  \<^verbatim>\<open>EmailMessage\<close>).
\<close>

datatype exn =
    HTTPError response
  | RequestException nat
  | AttributeError pystr
  | KeyError pystr
  | IntValueError pystr
  | EmptyMaxValueError
  | HeaderValueError pystr
  | MessageError pystr
  | SMTPException nat
  | EOFError

record http_request =
  req_method :: pystr
  req_url :: pystr
  req_headers :: "dict option"
  req_data :: "dict option"

record email =
  content :: pystr
  subject :: pystr
  sender :: pystr
  recipient :: pystr

datatype smtp_step =
    Connect
  | Login pystr pystr
  | Send_message email
  | Quit

text \<open>
  What the program does to the outside is recorded as a trace of events, each call to the
  network or to the mail relay together with its outcome.
\<close>

datatype event =
    Stdout pystr
  | Prompt pystr
  | Session_start
  | Http http_request "exn + response"
  | Close_session
  | Session_exit
  | Smtp smtp_step "exn option"

text \<open>
  \<open>SESSION\<close> is the class attribute of \<^verbatim>\<open>TeveClubLink\<close> (\<open>None\<close> until
  \<^verbatim>\<open>start_session\<close>); \<open>stdin\<close> holds the lines the user will type, and reading past
  the last one is the end of the input.
\<close>

record world =
  trace :: "event list"
  SESSION :: "unit option"
  stdin :: "pystr list"

text \<open>
  The environment: the site (the final outcome of each request, given what happened so
  far), the mail relay (whether a step fails), and the library functions whose behaviour
  is not fixed by the script:
  \<^item> the HTML parser;
  \<^item> \<^verbatim>\<open>int\<close> on a text (\<open>None\<close> when it raises);
  \<^item> the text \<^verbatim>\<open>str\<close> of an exception;
  \<^item> \<open>set_content_error\<close>: what \<^verbatim>\<open>EmailMessage.set_content\<close> raises on a text, if anything
    (a text with a lone surrogate cannot be encoded);
  \<^item> \<open>header_error\<close>: what the \<^verbatim>\<open>email\<close> package raises, if anything, when it parses a
    single-line value for the header of the given name (the address headers
    \<^verbatim>\<open>From\<close> and \<^verbatim>\<open>To\<close> refuse some values that \<^verbatim>\<open>Subject\<close> stores);
  \<^item> \<open>other_attribute\<close>: what \<^verbatim>\<open>getattr\<close> on the value of \<open>SESSION\<close>, or the use of what
    it finds, raises for a name that is no request method.
\<close>

record env =
  net :: "event list \<Rightarrow> http_request \<Rightarrow> exn + response"
  smtp :: "event list \<Rightarrow> smtp_step \<Rightarrow> exn option"
  html_parser :: "pystr \<Rightarrow> node"
  py_int :: "pystr \<Rightarrow> int option"
  str_exn :: "exn \<Rightarrow> pystr"
  set_content_error :: "pystr \<Rightarrow> exn option"
  header_error :: "pystr \<Rightarrow> pystr \<Rightarrow> exn option"
  other_attribute :: "unit option \<Rightarrow> pystr \<Rightarrow> exn"

text \<open>A computation runs in a world and either raises or returns, in a new world.\<close>

type_synonym 'a io = "world \<Rightarrow> (exn + 'a) \<times> world"

definition return_io :: "'a \<Rightarrow> 'a io" where
  "return_io a w = (Inr a, w)"

definition raise_io :: "exn \<Rightarrow> 'a io" where
  "raise_io e w = (Inl e, w)"

definition lift_io :: "exn + 'a \<Rightarrow> 'a io" where
  "lift_io r w = (r, w)"

definition bind_io :: "'a io \<Rightarrow> ('a \<Rightarrow> 'b io) \<Rightarrow> 'b io" where
  "bind_io m f w = (case m w of (Inl e, w') \<Rightarrow> (Inl e, w') | (Inr a, w') \<Rightarrow> f a w')"

definition emit :: "event \<Rightarrow> unit io" where
  "emit ev w = (Inr (), w\<lparr>trace := trace w @ [ev]\<rparr>)"

text \<open>
  A \<^verbatim>\<open>with\<close> block whose \<^verbatim>\<open>__exit__\<close> returns nothing: the exit runs after the body on
  both paths; an exception of the body is raised again after it, unless the exit raises
  one of its own.
\<close>

definition with_exit :: "'a io \<Rightarrow> unit io \<Rightarrow> 'a io" where
  "with_exit body exit w =
     (case body w of
        (Inr a, w1) \<Rightarrow>
          (case exit w1 of (Inl e, w2) \<Rightarrow> (Inl e, w2) | (Inr u, w2) \<Rightarrow> (Inr a, w2))
      | (Inl e, w1) \<Rightarrow>
          (case exit w1 of (Inl e', w2) \<Rightarrow> (Inl e', w2) | (Inr u, w2) \<Rightarrow> (Inl e, w2)))"

text \<open>\<^verbatim>\<open>d[k]\<close> and \<^verbatim>\<open>print\<close>.\<close>

definition getitem :: "(pystr \<times> 'v) list \<Rightarrow> pystr \<Rightarrow> exn + 'v" where
  "getitem d k = (case map_of d k of None \<Rightarrow> Inl (KeyError k) | Some v \<Rightarrow> Inr v)"

definition print_end :: "pystr \<Rightarrow> pystr \<Rightarrow> unit io" where
  "print_end s e = emit (Stdout (s @ e))"

definition print :: "pystr \<Rightarrow> unit io" where
  "print s = print_end s [10]"

section \<open>The notifier\<close>

text \<open>
  \<^verbatim>\<open>str.splitlines\<close>: the lines of a string, split at the line boundaries (a carriage
  return followed by a line feed is one boundary); a boundary at the very end opens no
  further line.
\<close>

definition is_linebreak :: "nat \<Rightarrow> bool" where
  "is_linebreak c = (c \<in> {10, 11, 12, 13, 28, 29, 30, 133, 8232, 8233})"

fun splitlines :: "pystr \<Rightarrow> pystr list" where
  "splitlines [] = []"
| "splitlines [c] = (if is_linebreak c then [[]] else [[c]])"
| "splitlines (c # d # cs) =
     (if c = 13 \<and> d = 10 then [] # splitlines cs
      else if is_linebreak c then [] # splitlines (d # cs)
      else (case splitlines (d # cs) of [] \<Rightarrow> [[c]] | l # ls \<Rightarrow> (c # l) # ls))"

text \<open>
  \<^verbatim>\<open>msg[name] = value\<close> on an \<^verbatim>\<open>EmailMessage\<close>.  The message has the default policy of
  the \<^verbatim>\<open>email\<close> package, whose \<^verbatim>\<open>header_store_parse\<close> raises
  \<^verbatim>\<open>ValueError("Header values may not contain linefeed or carriage return characters")\<close>
  when \<^verbatim>\<open>len(value.splitlines()) > 1\<close>, and otherwise parses the value as the header of
  that name asks, which can raise as well (on the address headers: \<^verbatim>\<open>"a\n"\<close> gives a
  \<^verbatim>\<open>ValueError\<close>, \<^verbatim>\<open>"a@"\<close> an \<^verbatim>\<open>IndexError\<close>).  \<^verbatim>\<open>msg.set_content(text)\<close> raises when
  the text cannot be encoded.
\<close>

definition header_store_parse :: "env \<Rightarrow> pystr \<Rightarrow> pystr \<Rightarrow> exn + pystr" where
  "header_store_parse E nm v =
     (if length (splitlines v) > 1 then Inl (HeaderValueError v)
      else (case header_error E nm v of
              Some e \<Rightarrow> Inl e
            | None \<Rightarrow> Inr v))"

definition set_content :: "env \<Rightarrow> pystr \<Rightarrow> exn + pystr" where
  "set_content E t =
     (case set_content_error E t of
        Some e \<Rightarrow> Inl e
      | None \<Rightarrow> Inr t)"

definition smtp_do :: "env \<Rightarrow> smtp_step \<Rightarrow> unit io" where
  "smtp_do E step w =
     (let outcome = smtp E (trace w) step;
          w' = w\<lparr>trace := trace w @ [Smtp step outcome]\<rparr>
      in (case outcome of None \<Rightarrow> (Inr (), w') | Some e \<Rightarrow> (Inl e, w')))"

text \<open>
  \<^verbatim>\<open>_mail_error\<close>.  The connection is made by the constructor of \<^verbatim>\<open>SMTP_SSL\<close>; leaving
  the \<^verbatim>\<open>with\<close> block sends QUIT.
\<close>

definition mail_error :: "env \<Rightarrow> dict \<Rightarrow> pystr \<Rightarrow> pystr \<Rightarrow> response option \<Rightarrow> unit io" where
  "mail_error E cfg error_message subj page =
     bind_io (lift_io (getitem cfg (ustr ''sender''))) (\<lambda>sndr.
     bind_io (smtp_do E Connect) (\<lambda>_.
     with_exit
       (bind_io (lift_io (getitem cfg (ustr ''pass''))) (\<lambda>pw.
        bind_io (smtp_do E (Login sndr pw)) (\<lambda>_.
        bind_io (lift_io (set_content E
                  (case page of
                     None \<Rightarrow> error_message
                   | Some pg \<Rightarrow> error_message @ [10, 10] @ page_text pg))) (\<lambda>body.
        bind_io (lift_io (header_store_parse E (ustr ''Subject'') subj)) (\<lambda>h_subject.
        bind_io (lift_io (header_store_parse E (ustr ''From'') sndr)) (\<lambda>h_from.
        bind_io (lift_io (getitem cfg (ustr ''recipient''))) (\<lambda>rcpt.
        bind_io (lift_io (header_store_parse E (ustr ''To'') rcpt)) (\<lambda>h_to.
        smtp_do E (Send_message
          \<lparr>content = body, subject = h_subject, sender = h_from, recipient = h_to\<rparr>)))))))))
       (smtp_do E Quit)))"

section \<open>The session wrapper\<close>

definition HEADER :: dict where
  "HEADER =
     [(ustr ''User-Agent'',
       ustr ''Mozilla/5.0 (X11; Linux x86_64) AppleWebKit/537.36'' @
       ustr '' (KHTML, like Gecko) Chrome/51.0.2704.103 Safari/537.36'')]"

definition SERVER_URL :: pystr where
  "SERVER_URL = ustr ''https://teveclub.hu''"

definition TEVE_LINK :: pystr where
  "TEVE_LINK = ustr ''myteve.pet''"

definition TEACH_LINK :: pystr where
  "TEACH_LINK = ustr ''tanit.pet''"

definition LOGOUT_LINK :: pystr where
  "LOGOUT_LINK = ustr ''logout.pet''"

text \<open>
  \<^verbatim>\<open>getattr(cls.SESSION, method)\<close> and the use of what it finds.  On a session the seven
  request methods are found and send a request.  \<^verbatim>\<open>None\<close> has none of them:
  \<^verbatim>\<open>AttributeError\<close>.  Any other name raises without a request being sent: \<^verbatim>\<open>getattr\<close>
  raises \<^verbatim>\<open>AttributeError\<close> when there is no such attribute, and an attribute that is found
  is no request method, so that the call with the URL or the status check of its result
  raises (\<^verbatim>\<open>TypeError\<close> for most); which exception it is, the environment tells.  (The
  effect of calling the session's own \<^verbatim>\<open>__exit__\<close> in this way is left out.)
\<close>

definition session_methods :: "pystr list" where
  "session_methods =
     [ustr ''get'', ustr ''options'', ustr ''head'', ustr ''post'', ustr ''put'',
      ustr ''patch'', ustr ''delete'']"

definition getattr_session :: "env \<Rightarrow> pystr \<Rightarrow> pystr io" where
  "getattr_session E method w =
     (if method \<in> set session_methods
      then (case SESSION w of
              None \<Rightarrow> (Inl (AttributeError method), w)
            | Some u \<Rightarrow> (Inr method, w))
      else (Inl (other_attribute E (SESSION w) method), w))"

text \<open>Calling the session method: the environment gives the final outcome.\<close>

definition session_call :: "env \<Rightarrow> http_request \<Rightarrow> response io" where
  "session_call E rq w =
     (let outcome = net E (trace w) rq
      in (outcome, w\<lparr>trace := trace w @ [Http rq outcome]\<rparr>))"

text \<open>
  \<^verbatim>\<open>Response.raise_for_status\<close> of the \<^verbatim>\<open>requests\<close> package raises \<^verbatim>\<open>HTTPError\<close> when
  \<^verbatim>\<open>400 <= status_code < 600\<close>, and does nothing for any other status.
\<close>

definition raise_for_status :: "response \<Rightarrow> unit io" where
  "raise_for_status r =
     (if 400 \<le> status_code r \<and> status_code r < 600 then raise_io (HTTPError r)
      else return_io ())"

definition request :: "env \<Rightarrow> pystr option \<Rightarrow> bool \<Rightarrow> pystr \<Rightarrow> dict option \<Rightarrow> response io" where
  "request E link use_headers method data =
     bind_io (getattr_session E method) (\<lambda>session_method.
     let link_url = (case link of
                       None \<Rightarrow> SERVER_URL
                     | Some l \<Rightarrow> SERVER_URL @ ustr ''/'' @ l);
         rq = \<lparr>req_method = session_method, req_url = link_url,
               req_headers = (if use_headers then Some HEADER else None),
               req_data = data\<rparr>
     in
     bind_io (session_call E rq) (\<lambda>response.
     bind_io (raise_for_status response) (\<lambda>_.
     return_io response)))"

definition start_session :: "unit io" where
  "start_session w = (Inr (), w\<lparr>trace := trace w @ [Session_start], SESSION := Some ()\<rparr>)"

definition close_session :: "unit io" where
  "close_session =
     bind_io (emit Close_session) (\<lambda>_. (\<lambda>w.
       (case SESSION w of
          None \<Rightarrow> return_io () w
        | Some u \<Rightarrow> emit Session_exit w)))"

section \<open>Maximum option value\<close>

text \<open>
  The list comprehension \<^verbatim>\<open>[int(option.text) for option in ...]\<close> raises at the first
  text that is no integer; \<^verbatim>\<open>max\<close> raises on the empty list.
\<close>

fun int_texts :: "(pystr \<Rightarrow> int option) \<Rightarrow> node list \<Rightarrow> exn + int list" where
  "int_texts to_int [] = Inr []"
| "int_texts to_int (opt # opts) =
     (case to_int (get_text opt) of
        None \<Rightarrow> Inl (IntValueError (get_text opt))
      | Some i \<Rightarrow>
          (case int_texts to_int opts of
             Inl e \<Rightarrow> Inl e
           | Inr vs \<Rightarrow> Inr (i # vs)))"

fun py_max :: "int list \<Rightarrow> exn + int" where
  "py_max [] = Inl EmptyMaxValueError"
| "py_max (v # vs) = Inr (fold max vs v)"

definition max_option :: "(pystr \<Rightarrow> int option) \<Rightarrow> node \<Rightarrow> pystr \<Rightarrow> exn + int" where
  "max_option to_int soup nm =
     (case find_attrs soup (ustr ''name'') nm of
        None \<Rightarrow> Inr 0
      | Some options \<Rightarrow>
          (case int_texts to_int (find_all options (ustr ''option'')) of
             Inl e \<Rightarrow> Inl e
           | Inr vs \<Rightarrow> py_max vs))"

text \<open>\<^verbatim>\<open>str\<close> of an integer: its decimal digits, after a minus sign when negative.\<close>

fun str_nat :: "nat \<Rightarrow> pystr" where
  "str_nat n = (if n < 10 then [48 + n] else str_nat (n div 10) @ [48 + n mod 10])"

declare str_nat.simps [simp del]

definition str_int :: "int \<Rightarrow> pystr" where
  "str_int i = (if i < 0 then 45 # str_nat (nat (- i)) else str_nat (nat i))"

section \<open>Login check and user input\<close>

text \<open>\<^verbatim>\<open>_ensure_login\<close>: on a failed login a mail is sent, and nothing else happens.\<close>

definition login_failure_message :: pystr where
  "login_failure_message = ustr ''Nem siker'' @ [252] @ ustr ''lt bejelentkezni!?''"

definition login_failure_subject :: pystr where
  "login_failure_subject =
     ustr ''Automatikus bel'' @ [233] @ ustr ''p'' @ [233] @ ustr ''si hiba!!!''"

definition ensure_login :: "env \<Rightarrow> dict \<Rightarrow> response \<Rightarrow> unit io" where
  "ensure_login E mail_cfg response =
     (let logged_in = parse_login_status response
      in if truthy logged_in then print (ustr ''Bent vagyunk! :)'')
         else mail_error E mail_cfg login_failure_message login_failure_subject
                (Some response))"

text \<open>
  \<^verbatim>\<open>input\<close> writes the prompt and reads a line; \<^verbatim>\<open>getpass\<close> prompts on the terminal.
  Both raise \<^verbatim>\<open>EOFError\<close> at the end of the input.
\<close>

definition input :: "pystr \<Rightarrow> pystr io" where
  "input prompt w =
     (let w' = w\<lparr>trace := trace w @ [Stdout prompt]\<rparr>
      in (case stdin w of
            [] \<Rightarrow> (Inl EOFError, w')
          | l # ls \<Rightarrow> (Inr l, w'\<lparr>stdin := ls\<rparr>)))"

definition getpass :: "pystr io" where
  "getpass w =
     (let w' = w\<lparr>trace := trace w @ [Prompt (ustr ''Password: '')]\<rparr>
      in (case stdin w of
            [] \<Rightarrow> (Inl EOFError, w')
          | l # ls \<Rightarrow> (Inr l, w'\<lparr>stdin := ls\<rparr>)))"

text \<open>
  \<^verbatim>\<open>_get_name\<close>: the loop asks again while the line is empty.  (\<^verbatim>\<open>input\<close> raises no
  \<^verbatim>\<open>SyntaxError\<close>, so that handler has no branch here.)
\<close>

function get_name :: "pystr io" where
  "get_name w =
     (case input (ustr ''Teve neve: '') w of
        (Inl e, w1) \<Rightarrow> (Inl e, w1)
      | (Inr l, w1) \<Rightarrow>
          (if l = []
           then get_name
                  (snd (print (ustr ''K'' @ [233] @ ustr ''rlek adj meg egy igazi nevet'') w1))
           else (Inr l, w1)))"
  by pat_completeness auto
termination
  by (relation "measure (\<lambda>w. length (stdin w))")
     (auto simp: input_def print_def print_end_def emit_def Let_def split: list.splits)

declare get_name.simps [simp del]

definition get_from_user_if_none :: "pystr option \<Rightarrow> pystr io \<Rightarrow> pystr io" where
  "get_from_user_if_none maybe_none_value get_from_user_function =
     (case maybe_none_value of
        None \<Rightarrow> get_from_user_function
      | Some v \<Rightarrow> return_io v)"

section \<open>The workflow\<close>

record teve =
  name :: "pystr option"
  password :: "pystr option"
  logged_in :: bool
  mail_cfg :: dict

definition LOGIN_FORM :: dict where
  "LOGIN_FORM =
     [(ustr ''x'', ustr ''26''), (ustr ''y'', ustr ''22''), (ustr ''login'', ustr ''Gyere!'')]"

definition NAME_FIELD :: pystr where
  "NAME_FIELD = ustr ''tevenev''"

definition PASSWORD_FIELD :: pystr where
  "PASSWORD_FIELD = ustr ''pass''"

text \<open>
  A configuration as \<^verbatim>\<open>toml.load\<close> returns it: tables of string values by name.
  \<^verbatim>\<open>Teve.__init__\<close> raises \<^verbatim>\<open>KeyError\<close> on a missing table or key.
\<close>

type_synonym config = "(pystr \<times> dict) list"

definition Teve_init :: "config \<Rightarrow> exn + teve" where
  "Teve_init cfg =
     (case getitem cfg (ustr ''teve'') of
        Inl e \<Rightarrow> Inl e
      | Inr tv \<Rightarrow>
     (case getitem tv (ustr ''name'') of
        Inl e \<Rightarrow> Inl e
      | Inr nm \<Rightarrow>
     (case getitem tv (ustr ''pass'') of
        Inl e \<Rightarrow> Inl e
      | Inr pw \<Rightarrow>
     (case getitem cfg (ustr ''mail'') of
        Inl e \<Rightarrow> Inl e
      | Inr ml \<Rightarrow>
          Inr \<lparr>name = Some nm, password = Some pw, logged_in = False, mail_cfg = ml\<rparr>))))"

text \<open>\<^verbatim>\<open>Teve.__exit__\<close>\<close>

definition Teve_exit :: "env \<Rightarrow> teve \<Rightarrow> teve io" where
  "Teve_exit E self =
     bind_io
       (if logged_in self
        then bind_io (request E (Some LOGOUT_LINK) True (ustr ''get'') None) (\<lambda>_.
             bind_io (print (ustr ''Kijelentkeztem! :)'')) (\<lambda>_.
             return_io (self\<lparr>logged_in := False\<rparr>)))
        else return_io self) (\<lambda>self'.
     bind_io close_session (\<lambda>_.
     return_io self'))"

text \<open>
  \<^verbatim>\<open>Teve.__enter__\<close>: the body of the \<^verbatim>\<open>try\<close> first.  The flag is set by its last
  statement, so the handler runs \<^verbatim>\<open>__exit__\<close> on the object as it was before.
\<close>

definition login_banner :: pystr where
  "login_banner = ustr ''Bejelentkez'' @ [233] @ ustr ''s... ''"

definition enter_body :: "env \<Rightarrow> teve \<Rightarrow> teve io" where
  "enter_body E self =
     bind_io start_session (\<lambda>_.
     bind_io (get_from_user_if_none (name self) get_name) (\<lambda>nm.
     bind_io (get_from_user_if_none (password self) getpass) (\<lambda>pw.
     let form = AList.update PASSWORD_FIELD pw (AList.update NAME_FIELD nm LOGIN_FORM) in
     bind_io (print_end login_banner []) (\<lambda>_.
     bind_io (request E None True (ustr ''post'') (Some form)) (\<lambda>response.
     bind_io (raise_for_status response) (\<lambda>_.
     bind_io (ensure_login E (mail_cfg self) response) (\<lambda>_.
     return_io (self\<lparr>logged_in := True\<rparr>))))))))"

definition Teve_enter :: "env \<Rightarrow> teve \<Rightarrow> teve io" where
  "Teve_enter E self w =
     (case enter_body E self w of
        (Inr self', w1) \<Rightarrow> (Inr self', w1)
      | (Inl e, w1) \<Rightarrow>
          (case Teve_exit E self w1 of
             (Inl e', w2) \<Rightarrow> (Inl e', w2)
           | (Inr s, w2) \<Rightarrow> (Inl e, w2)))"

definition print_page_error :: "response \<Rightarrow> unit io" where
  "print_page_error page = print (ustr ''ERROR: '' @ page_text page)"

text \<open>\<^verbatim>\<open>Teve.etet\<close>, the feed step.\<close>

definition feed_banner :: pystr where
  "feed_banner = ustr ''Etet'' @ [233] @ ustr ''s... ''"

definition etet :: "env \<Rightarrow> teve \<Rightarrow> unit io" where
  "etet E self =
     bind_io (print_end feed_banner []) (\<lambda>_.
     bind_io (request E (Some TEVE_LINK) True (ustr ''get'') None) (\<lambda>response.
     let soup = html_parser E (page_text response) in
     bind_io (lift_io (max_option (py_int E) soup (ustr ''kaja''))) (\<lambda>max_kaja.
     bind_io (lift_io (max_option (py_int E) soup (ustr ''pia''))) (\<lambda>max_pia.
     if max_kaja = 0 \<and> max_pia = 0
     then print (ustr ''OK (nem '' @ [233] @ ustr ''hes '' @ [233] @ ustr ''s nem is szomjas)'')
     else
       let form_data =
             [(ustr ''kaja'', str_int max_kaja), (ustr ''pia'', str_int max_pia),
              (ustr ''etet'', ustr ''Mehet!'')]
       in
       bind_io (request E (Some TEVE_LINK) True (ustr ''post'') (Some form_data)) (\<lambda>response.
       let success = parse_feed_success response in
       if truthy success then print (ustr ''OK'')
       else
         bind_io (print_page_error response) (\<lambda>_.
         mail_error E (mail_cfg self)
           (ustr ''Nem siker'' @ [252] @ ustr ''lt az etet'' @ [233] @ ustr ''s!'')
           (ustr ''Automatikus etet'' @ [233] @ ustr ''si kalamajka!'')
           (Some response)))))))"

text \<open>\<^verbatim>\<open>Teve.tanit\<close>, the teach step.\<close>

definition tanit :: "env \<Rightarrow> teve \<Rightarrow> unit io" where
  "tanit E self =
     bind_io (print_end (ustr ''Tan'' @ [237] @ ustr ''t'' @ [225] @ ustr ''s... '') []) (\<lambda>_.
     let form_data =
           [(ustr ''farmdoit'', ustr ''tanit''), (ustr ''learn'', ustr ''Tanulj teve!'')]
     in
     bind_io (request E (Some TEACH_LINK) True (ustr ''post'') (Some form_data)) (\<lambda>response.
     let success = parse_teach_success response in
     if truthy success then print (ustr ''OK'')
     else
       bind_io (print_page_error response) (\<lambda>_.
       mail_error E (mail_cfg self)
         (ustr ''Nem siker'' @ [252] @ ustr ''lt a tan'' @ [237] @ ustr ''t'' @ [225] @ ustr ''s!'')
         (ustr ''Automatikus tan'' @ [237] @ ustr ''t'' @ [225] @ ustr ''si fennforgatty'' @ [250] @ ustr ''!'')
         (Some response))))"

text \<open>
  \<^verbatim>\<open>with teve: teve.etet(); teve.tanit()\<close>: when \<^verbatim>\<open>__enter__\<close> raises, the block and
  \<^verbatim>\<open>__exit__\<close> are skipped.
\<close>

definition workflow :: "env \<Rightarrow> teve \<Rightarrow> unit io" where
  "workflow E t =
     bind_io (Teve_enter E t) (\<lambda>t'.
     with_exit
       (bind_io (etet E t') (\<lambda>_. tanit E t'))
       (bind_io (Teve_exit E t') (\<lambda>_. return_io ())))"

text \<open>
  The top level: the \<^verbatim>\<open>try\<close> block, and the handler, which calls the notifier with the
  fixed text as message and the text of the exception in the subject, and raises the
  exception again.  A result \<open>Inl\<close> is a failed process.
\<close>

definition fatal_message :: pystr where
  "fatal_message = ustr ''Ismeretlen fat'' @ [225] @ ustr ''las hiba t'' @ [246] @ ustr ''rt'' @ [233] @ ustr ''nt!!!''"

definition fatal_subject :: "pystr \<Rightarrow> pystr" where
  "fatal_subject exc_text =
     ustr ''Elpusztult az eg'' @ [233] @ ustr ''sz!!! '' @ [193, 193, 193, 193] @ ustr ''!!!'' @
     [10, 10] @ exc_text"

definition main_try :: "env \<Rightarrow> config \<Rightarrow> unit io" where
  "main_try E cfg = bind_io (lift_io (Teve_init cfg)) (\<lambda>t. workflow E t)"

definition main_handler :: "env \<Rightarrow> config \<Rightarrow> exn \<Rightarrow> unit io" where
  "main_handler E cfg exc =
     bind_io (lift_io (getitem cfg (ustr ''mail''))) (\<lambda>ml.
     bind_io (mail_error E ml fatal_message (fatal_subject (str_exn E exc)) None) (\<lambda>_.
     raise_io exc))"

definition main :: "env \<Rightarrow> config \<Rightarrow> unit io" where
  "main E cfg w =
     (case main_try E cfg w of
        (Inr u, w1) \<Rightarrow> (Inr u, w1)
      | (Inl exc, w1) \<Rightarrow> main_handler E cfg exc w1)"

definition initial_world :: "pystr list \<Rightarrow> world" where
  "initial_world lines = \<lparr>trace = [], SESSION = None, stdin = lines\<rparr>"

section \<open>Observations on a run\<close>

text \<open>The events a computation added to the trace, and the kinds of event the claims speak of.\<close>

definition new_events :: "world \<Rightarrow> world \<Rightarrow> event list" where
  "new_events w w' = drop (length (trace w)) (trace w')"

fun is_http :: "event \<Rightarrow> bool" where
  "is_http (Http rq out) = True"
| "is_http ev = False"

fun is_logout_request :: "event \<Rightarrow> bool" where
  "is_logout_request (Http rq out) =
     (req_method rq = ustr ''get'' \<and> req_url rq = SERVER_URL @ ustr ''/'' @ LOGOUT_LINK)"
| "is_logout_request ev = False"

fun is_mail_sent :: "event \<Rightarrow> bool" where
  "is_mail_sent (Smtp (Send_message m) None) = True"
| "is_mail_sent ev = False"

definition login_request :: "pystr \<Rightarrow> pystr \<Rightarrow> http_request" where
  "login_request nm pw =
     \<lparr>req_method = ustr ''post'', req_url = SERVER_URL, req_headers = Some HEADER,
      req_data = Some [(ustr ''x'', ustr ''26''), (ustr ''y'', ustr ''22''),
                       (ustr ''login'', ustr ''Gyere!''), (ustr ''tevenev'', nm),
                       (ustr ''pass'', pw)]\<rparr>"

definition pet_page_request :: http_request where
  "pet_page_request =
     \<lparr>req_method = ustr ''get'', req_url = SERVER_URL @ ustr ''/'' @ TEVE_LINK,
      req_headers = Some HEADER, req_data = None\<rparr>"

definition feed_request :: "int \<Rightarrow> int \<Rightarrow> http_request" where
  "feed_request max_kaja max_pia =
     \<lparr>req_method = ustr ''post'', req_url = SERVER_URL @ ustr ''/'' @ TEVE_LINK,
      req_headers = Some HEADER,
      req_data = Some [(ustr ''kaja'', str_int max_kaja), (ustr ''pia'', str_int max_pia),
                       (ustr ''etet'', ustr ''Mehet!'')]\<rparr>"

definition logout_request :: http_request where
  "logout_request =
     \<lparr>req_method = ustr ''get'', req_url = SERVER_URL @ ustr ''/'' @ LOGOUT_LINK,
      req_headers = Some HEADER, req_data = None\<rparr>"

text \<open>The login form was answered, and the classifier accepts the answer.\<close>

fun is_accepted_login :: "event \<Rightarrow> bool" where
  "is_accepted_login (Http rq (Inr r)) =
     (req_method rq = ustr ''post'' \<and> req_url rq = SERVER_URL \<and> truthy (parse_login_status r))"
| "is_accepted_login ev = False"

text \<open>
  The entry step completed: the object was built and \<^verbatim>\<open>__enter__\<close> returned without
  raising.
\<close>

definition entry_completed :: "env \<Rightarrow> config \<Rightarrow> world \<Rightarrow> bool" where
  "entry_completed E cfg w =
     (case Teve_init cfg of
        Inl e \<Rightarrow> False
      | Inr t \<Rightarrow> (case fst (Teve_enter E t w) of Inl e \<Rightarrow> False | Inr t' \<Rightarrow> True))"

text \<open>
  A computation only adds events that satisfy \<open>P\<close> to the trace, and leaves a session
  that was started in place.
\<close>

definition steps :: "(event \<Rightarrow> bool) \<Rightarrow> 'a io \<Rightarrow> bool" where
  "steps P m = (\<forall>w. \<exists>es. trace (snd (m w)) = trace w @ es \<and> list_all P es
                   \<and> (SESSION w \<noteq> None \<longrightarrow> SESSION (snd (m w)) \<noteq> None))"

text \<open>
  Events other than requests and the release of the session (output, prompts, the start of
  the session, the steps of the mail relay) satisfy \<open>P\<close>.
\<close>

definition quiet :: "(event \<Rightarrow> bool) \<Rightarrow> bool" where
  "quiet P = (\<forall>ev. \<not> is_http ev \<and> ev \<noteq> Close_session \<and> ev \<noteq> Session_exit \<longrightarrow> P ev)"

text \<open>The exceptions that are a \<^verbatim>\<open>ValueError\<close> of the option computation.\<close>

fun is_value_error :: "exn \<Rightarrow> bool" where
  "is_value_error EmptyMaxValueError = True"
| "is_value_error (IntValueError s) = True"
| "is_value_error e = False"

section \<open>Example environments\<close>

text \<open>
  The configuration of the script's own example, a relay that accepts everything, and
  sites given by their answer to each request.  \<open>digits_int\<close> reads a text of ASCII
  digits, as \<^verbatim>\<open>int\<close> does on such a text.
\<close>

definition example_config :: config where
  "example_config =
     [(ustr ''teve'', [(ustr ''name'', ustr ''Macska''), (ustr ''pass'', ustr ''SoseTudodMeg'')]),
      (ustr ''mail'', [(ustr ''sender'', ustr ''xyz@mail.com''), (ustr ''pass'', ustr ''NemMondomEl''),
                       (ustr ''recipient'', ustr ''mokus@mail.com'')])]"

fun digits_acc :: "int \<Rightarrow> pystr \<Rightarrow> int option" where
  "digits_acc acc [] = Some acc"
| "digits_acc acc (c # cs) =
     (if 48 \<le> c \<and> c \<le> 57 then digits_acc (10 * acc + int (c - 48)) cs else None)"

definition digits_int :: "pystr \<Rightarrow> int option" where
  "digits_int t = (if t = [] then None else digits_acc 0 t)"

text \<open>
  Stand-ins for the \<^verbatim>\<open>email\<close> package that accept only values the package accepts: a
  content without code points from the surrogates on, a subject of code points from 32 to
  255, and an address of letters and digits, an at sign, and letters, digits and dots.
\<close>

definition is_alnum :: "nat \<Rightarrow> bool" where
  "is_alnum c = ((48 \<le> c \<and> c \<le> 57) \<or> (65 \<le> c \<and> c \<le> 90) \<or> (97 \<le> c \<and> c \<le> 122))"

definition plain_address :: "pystr \<Rightarrow> bool" where
  "plain_address v =
     (case dropWhile (\<lambda>c. c \<noteq> 64) v of
        [] \<Rightarrow> False
      | c # d \<Rightarrow>
          takeWhile (\<lambda>c. c \<noteq> 64) v \<noteq> [] \<and> list_all is_alnum (takeWhile (\<lambda>c. c \<noteq> 64) v)
          \<and> d \<noteq> [] \<and> list_all (\<lambda>c. is_alnum c \<or> c = 46) d)"

definition plain_header :: "pystr \<Rightarrow> pystr \<Rightarrow> exn option" where
  "plain_header nm v =
     (if nm = ustr ''Subject''
      then (if list_all (\<lambda>c. 32 \<le> c \<and> c \<le> 255) v then None else Some (MessageError v))
      else (if plain_address v then None else Some (MessageError v)))"

definition plain_content :: "pystr \<Rightarrow> exn option" where
  "plain_content t = (if list_all (\<lambda>c. c < 55296) t then None else Some (MessageError t))"

definition site_env :: "(http_request \<Rightarrow> exn + response) \<Rightarrow> node \<Rightarrow> env" where
  "site_env site page =
     \<lparr>net = (\<lambda>tr. site), smtp = (\<lambda>tr step. None), html_parser = (\<lambda>t. page),
      py_int = digits_int, str_exn = (\<lambda>e. ustr ''error''),
      set_content_error = plain_content, header_error = plain_header,
      other_attribute = (\<lambda>s m. AttributeError m)\<rparr>"

definition example_teve :: teve where
  "example_teve =
     \<lparr>name = Some (ustr ''Macska''), password = Some (ustr ''SoseTudodMeg''),
      logged_in = False,
      mail_cfg = [(ustr ''sender'', ustr ''xyz@mail.com''), (ustr ''pass'', ustr ''NemMondomEl''),
                  (ustr ''recipient'', ustr ''mokus@mail.com'')]\<rparr>"

definition empty_page :: node where
  "empty_page = Tag (ustr ''[document]'') [] []"

definition select_of :: "pystr \<Rightarrow> pystr list \<Rightarrow> node" where
  "select_of nm texts =
     Tag (ustr ''select'') [(ustr ''name'', nm)]
       (map (\<lambda>t. Tag (ustr ''option'') [] [NavigableString t]) texts)"

definition hungry_page :: node where
  "hungry_page =
     Tag (ustr ''[document]'') []
       [Tag (ustr ''form'') []
          [select_of (ustr ''kaja'') [ustr ''1'', ustr ''3'', ustr ''2''],
           select_of (ustr ''pia'') [ustr ''1'', ustr ''2'']]]"

definition no_options_page :: node where
  "no_options_page =
     Tag (ustr ''[document]'') [] [select_of (ustr ''kaja'') []]"

text \<open>A site on which everything succeeds.\<close>

definition friendly_site :: "http_request \<Rightarrow> exn + response" where
  "friendly_site rq = Inr \<lparr>status_code = 200, body_text = teach_success_phrase\<rparr>"

text \<open>A site that answers the login form with the failure phrase.\<close>

definition rejecting_site :: "http_request \<Rightarrow> exn + response" where
  "rejecting_site rq =
     Inr \<lparr>status_code = 200,
          body_text = (if req_url rq = SERVER_URL then login_failure_phrase
                       else teach_success_phrase)\<rparr>"

text \<open>A site whose logout page answers 500.\<close>

definition failing_logout_site :: "http_request \<Rightarrow> exn + response" where
  "failing_logout_site rq =
     (if req_url rq = SERVER_URL @ ustr ''/'' @ LOGOUT_LINK
      then Inr \<lparr>status_code = 500, body_text = []\<rparr>
      else Inr \<lparr>status_code = 200, body_text = teach_success_phrase\<rparr>)"

text \<open>A site that answers everything with 500, and one that answers with 304.\<close>

definition broken_site :: "http_request \<Rightarrow> exn + response" where
  "broken_site rq = Inr \<lparr>status_code = 500, body_text = []\<rparr>"

definition not_modified_site :: "http_request \<Rightarrow> exn + response" where
  "not_modified_site rq = Inr \<lparr>status_code = 304, body_text = []\<rparr>"

section \<open>Properties of the classifiers\<close>

lemma starts_with_iff: "starts_with t s \<longleftrightarrow> (\<exists>post. t = s @ post)"
  by (induction t s rule: starts_with.induct) auto

lemma contains_iff: "contains t s \<longleftrightarrow> (\<exists>pre post. t = pre @ s @ post)"
proof (induction t)
  case Nil
  show ?case by (cases s) auto
next
  case (Cons x t)
  show ?case
  proof
    assume "contains (x # t) s"
    then consider "starts_with (x # t) s" | "contains t s" by auto
    then show "\<exists>pre post. x # t = pre @ s @ post"
    proof cases
      case 1
      then obtain post where "x # t = s @ post" using starts_with_iff by blast
      then have "x # t = [] @ s @ post" by simp
      then show ?thesis by blast
    next
      case 2
      then obtain pre post where "t = pre @ s @ post" using Cons.IH by blast
      then have "x # t = (x # pre) @ s @ post" by simp
      then show ?thesis by blast
    qed
  next
    assume "\<exists>pre post. x # t = pre @ s @ post"
    then obtain pre post where eq: "x # t = pre @ s @ post" by blast
    show "contains (x # t) s"
    proof (cases pre)
      case Nil
      with eq have "starts_with (x # t) s" using starts_with_iff by auto
      then show ?thesis by simp
    next
      case (Cons y pre')
      with eq have "t = pre' @ s @ post" by simp
      then have "contains t s" using Cons.IH by blast
      then show ?thesis by simp
    qed
  qed
qed

text \<open>A pattern of literal characters matches at the start exactly when the text starts with them.\<close>

lemma re_match_literal:
  "re_match (literal s) t = (if starts_with t s then Some (length s) else None)"
  unfolding literal_def
  by (induction t s rule: starts_with.induct) auto

lemma re_search_from_literal:
  "truthy (re_search_from (literal s) i t) \<longleftrightarrow> contains t s"
  by (induction t arbitrary: i) (auto simp: re_match_literal)

lemma re_search_from_not_bool: "\<not> is_bool (re_search_from p i t)"
  by (induction t arbitrary: i) (auto split: option.splits)

lemma re_search_from_falsy: "\<not> truthy (re_search_from p i t) \<Longrightarrow> re_search_from p i t = PyNone"
  by (induction t arbitrary: i) (auto split: option.splits)

text \<open>
  C8.  For every response, the login-status classifier returns the boolean that is false
  exactly when the body text contains the failure phrase "Valami baj van!", and true when
  the phrase is absent.  The classifier is a function of the response alone: it takes no
  world and returns none, so it has no effect.
\<close>

theorem parse_login_status_correct:
  "parse_login_status r =
     PyBool (\<not> (\<exists>pre post. body_text r = pre @ login_failure_phrase @ post))"
  by (simp add: parse_login_status_def py_not_def re_search_def login_failure_pattern_def
      re_search_from_literal contains_iff page_text_def)

text \<open>
  C9, as stated, fails: on a body text that is the phrase itself the teaching classifier
  returns the match object of the search, which is no boolean.
\<close>

theorem parse_teach_success_not_bool:
  "parse_teach_success \<lparr>status_code = 200, body_text = teach_success_phrase\<rparr>
     = PyMatch (Match 0 27)
   \<and> parse_teach_success \<lparr>status_code = 200, body_text = teach_success_phrase\<rparr>
     \<noteq> PyBool True"
  by code_simp

text \<open>
  C9, amended.  For every response, the teaching classifier returns the result of the
  search, never a boolean: a match object, which counts as true, when the body text
  contains the phrase, and \<^verbatim>\<open>None\<close>, which counts as false, when it does not.
\<close>

theorem parse_teach_success_truthy:
  "(truthy (parse_teach_success r)
      \<longleftrightarrow> (\<exists>pre post. body_text r = pre @ teach_success_phrase @ post))
   \<and> (parse_teach_success r = PyNone
      \<longleftrightarrow> \<not> (\<exists>pre post. body_text r = pre @ teach_success_phrase @ post))
   \<and> \<not> is_bool (parse_teach_success r)"
proof -
  let ?v = "re_search_from (literal teach_success_phrase) 0 (body_text r)"
  have v: "parse_teach_success r = ?v"
    by (simp add: parse_teach_success_def re_search_def teach_success_pattern_def page_text_def)
  have t: "truthy ?v \<longleftrightarrow> (\<exists>pre post. body_text r = pre @ teach_success_phrase @ post)"
    by (simp add: re_search_from_literal contains_iff)
  have n: "?v = PyNone \<longleftrightarrow> \<not> truthy ?v"
    using re_search_from_falsy [of "literal teach_success_phrase" 0 "body_text r"] by auto
  show ?thesis
    using t n re_search_from_not_bool [of "literal teach_success_phrase" 0 "body_text r"]
    by (simp add: v)
qed

section \<open>Traces of the operations\<close>


lemma stepsI:
  assumes "\<And>w. \<exists>es. trace (snd (m w)) = trace w @ es \<and> list_all P es
                   \<and> (SESSION w \<noteq> None \<longrightarrow> SESSION (snd (m w)) \<noteq> None)"
  shows "steps P m"
  using assms unfolding steps_def by blast

lemma stepsD:
  "steps P m \<Longrightarrow> \<exists>es. trace (snd (m w)) = trace w @ es \<and> list_all P es
                   \<and> (SESSION w \<noteq> None \<longrightarrow> SESSION (snd (m w)) \<noteq> None)"
  unfolding steps_def by blast

lemma steps_return: "steps P (return_io a)"
  by (rule stepsI) (simp add: return_io_def)

lemma steps_raise: "steps P (raise_io e)"
  by (rule stepsI) (simp add: raise_io_def)

lemma steps_lift: "steps P (lift_io r)"
  by (rule stepsI) (simp add: lift_io_def)

lemma steps_emit: "P ev \<Longrightarrow> steps P (emit ev)"
  by (rule stepsI) (simp add: emit_def)

lemma steps_bind:
  assumes m: "steps P m" and f: "\<And>a. steps P (f a)"
  shows "steps P (bind_io m f)"
proof (rule stepsI)
  fix w
  obtain es where es: "trace (snd (m w)) = trace w @ es" "list_all P es"
    and s: "SESSION w \<noteq> None \<Longrightarrow> SESSION (snd (m w)) \<noteq> None"
    using stepsD [OF m, of w] by blast
  obtain r w1 where mw: "m w = (r, w1)" by (cases "m w")
  show "\<exists>es. trace (snd (bind_io m f w)) = trace w @ es \<and> list_all P es
          \<and> (SESSION w \<noteq> None \<longrightarrow> SESSION (snd (bind_io m f w)) \<noteq> None)"
  proof (cases r)
    case (Inl e)
    then have "bind_io m f w = (Inl e, w1)" by (simp add: bind_io_def mw)
    then show ?thesis using es s mw by auto
  next
    case (Inr a)
    then have b: "bind_io m f w = f a w1" by (simp add: bind_io_def mw)
    obtain es' where es': "trace (snd (f a w1)) = trace w1 @ es'" "list_all P es'"
      and s': "SESSION w1 \<noteq> None \<Longrightarrow> SESSION (snd (f a w1)) \<noteq> None"
      using stepsD [OF f, of a w1] by blast
    have "trace (snd (bind_io m f w)) = trace w @ (es @ es')"
      using b es es' mw by simp
    moreover have "list_all P (es @ es')" using es es' by simp
    moreover have "SESSION w \<noteq> None \<longrightarrow> SESSION (snd (bind_io m f w)) \<noteq> None"
      using b s s' mw by simp
    ultimately show ?thesis by blast
  qed
qed

lemma steps_with_exit:
  assumes m: "steps P body" and f: "steps P ex"
  shows "steps P (with_exit body ex)"
proof (rule stepsI)
  fix w
  obtain es where es: "trace (snd (body w)) = trace w @ es" "list_all P es"
    and s: "SESSION w \<noteq> None \<Longrightarrow> SESSION (snd (body w)) \<noteq> None"
    using stepsD [OF m, of w] by blast
  obtain r w1 where mw: "body w = (r, w1)" by (cases "body w")
  obtain es' where es': "trace (snd (ex w1)) = trace w1 @ es'" "list_all P es'"
    and s': "SESSION w1 \<noteq> None \<Longrightarrow> SESSION (snd (ex w1)) \<noteq> None"
    using stepsD [OF f, of w1] by blast
  have w2: "snd (with_exit body ex w) = snd (ex w1)"
    by (auto simp: with_exit_def mw split: sum.splits prod.splits)
  have "trace (snd (with_exit body ex w)) = trace w @ (es @ es')"
    using w2 es es' mw by simp
  moreover have "list_all P (es @ es')" using es es' by simp
  moreover have "SESSION w \<noteq> None \<longrightarrow> SESSION (snd (with_exit body ex w)) \<noteq> None"
    using w2 s s' mw by simp
  ultimately show "\<exists>es. trace (snd (with_exit body ex w)) = trace w @ es \<and> list_all P es
          \<and> (SESSION w \<noteq> None \<longrightarrow> SESSION (snd (with_exit body ex w)) \<noteq> None)" by blast
qed

lemma steps_if: "steps P a \<Longrightarrow> steps P b \<Longrightarrow> steps P (if c then a else b)"
  by simp

lemma steps_print_end: "P (Stdout (s @ e)) \<Longrightarrow> steps P (print_end s e)"
  by (simp add: print_end_def steps_emit)

lemma steps_print: "P (Stdout (s @ [10])) \<Longrightarrow> steps P (print s)"
  by (simp add: print_def steps_print_end)

lemma steps_smtp_do: "(\<And>out. P (Smtp step out)) \<Longrightarrow> steps P (smtp_do E step)"
  by (rule stepsI) (auto simp: smtp_do_def Let_def split: option.splits)

lemma steps_mail_error:
  assumes "\<And>step out. P (Smtp step out)"
  shows "steps P (mail_error E cfg msg subj page)"
  unfolding mail_error_def Let_def
  by (intro steps_bind steps_with_exit steps_lift steps_smtp_do assms)

lemma steps_session_call: "(\<And>out. P (Http rq out)) \<Longrightarrow> steps P (session_call E rq)"
  by (rule stepsI) (auto simp: session_call_def Let_def)

lemma steps_getattr_session: "steps P (getattr_session E m)"
  by (rule stepsI) (auto simp: getattr_session_def split: option.splits)

lemma steps_raise_for_status: "steps P (raise_for_status r)"
  by (simp add: raise_for_status_def steps_raise steps_return)

lemma steps_request:
  assumes "\<And>m out. P (Http \<lparr>req_method = m,
      req_url = (case link of None \<Rightarrow> SERVER_URL | Some l \<Rightarrow> SERVER_URL @ ustr ''/'' @ l),
      req_headers = (if use_headers then Some HEADER else None), req_data = data\<rparr> out)"
  shows "steps P (request E link use_headers method data)"
  unfolding request_def Let_def
  by (intro steps_bind steps_getattr_session steps_session_call steps_raise_for_status
      steps_return assms)

lemma steps_get_name:
  assumes P: "\<And>s. P (Stdout s)"
  shows "steps P get_name"
proof (rule stepsI)
  fix w
  show "\<exists>es. trace (snd (get_name w)) = trace w @ es \<and> list_all P es
          \<and> (SESSION w \<noteq> None \<longrightarrow> SESSION (snd (get_name w)) \<noteq> None)"
  proof (induction w rule: get_name.induct)
    case (1 w)
    show ?case
    proof (cases "stdin w")
      case Nil
      then show ?thesis
        by (subst get_name.simps, subst (2) get_name.simps) (simp add: input_def Let_def P)
    next
      case (Cons l ls)
      show ?thesis
      proof (cases "l = []")
        case False
        with Cons show ?thesis
          by (subst get_name.simps, subst (2) get_name.simps) (simp add: input_def Let_def P)
      next
        case True
        let ?w1 = "w\<lparr>trace := trace w @ [Stdout (ustr ''Teve neve: '')], stdin := ls\<rparr>"
        let ?w2 = "snd (print (ustr ''K'' @ [233] @ ustr ''rlek adj meg egy igazi nevet'') ?w1)"
        have i: "input (ustr ''Teve neve: '') w = (Inr l, ?w1)"
          using Cons by (simp add: input_def Let_def)
        have g: "get_name w = get_name ?w2"
          by (subst get_name.simps) (simp add: i True)
        obtain es where es: "trace (snd (get_name ?w2)) = trace ?w2 @ es" "list_all P es"
          "SESSION ?w2 \<noteq> None \<longrightarrow> SESSION (snd (get_name ?w2)) \<noteq> None"
          using "1.IH" [OF i [symmetric] refl True] by blast
        have t2: "trace ?w2 = trace w @ [Stdout (ustr ''Teve neve: ''),
            Stdout ((ustr ''K'' @ [233] @ ustr ''rlek adj meg egy igazi nevet'') @ [10])]"
          and s2: "SESSION ?w2 = SESSION w"
          by (simp_all add: print_def print_end_def emit_def)
        show ?thesis
          unfolding g using es t2 s2 P by auto
      qed
    qed
  qed
qed

lemma steps_getpass: "(\<And>s. P (Prompt s)) \<Longrightarrow> steps P getpass"
  by (rule stepsI) (auto simp: getpass_def Let_def split: list.splits)

lemma steps_get_from_user:
  "steps P g \<Longrightarrow> steps P (get_from_user_if_none v g)"
  by (cases v) (simp_all add: get_from_user_if_none_def steps_return)

lemma steps_start_session: "P Session_start \<Longrightarrow> steps P start_session"
  by (rule stepsI) (simp add: start_session_def)

lemma steps_close_session: "P Close_session \<Longrightarrow> P Session_exit \<Longrightarrow> steps P close_session"
  by (rule stepsI)
     (auto simp: close_session_def bind_io_def emit_def return_io_def split: option.splits)


lemma quietD:
  "quiet P \<Longrightarrow> \<not> is_http ev \<Longrightarrow> ev \<noteq> Close_session \<Longrightarrow> ev \<noteq> Session_exit \<Longrightarrow> P ev"
  by (simp add: quiet_def)

lemma steps_ensure_login: "quiet P \<Longrightarrow> steps P (ensure_login E cfg r)"
  unfolding ensure_login_def Let_def
  by (intro steps_if steps_print steps_mail_error) (simp_all add: quietD)

lemma steps_print_page_error: "quiet P \<Longrightarrow> steps P (print_page_error r)"
  unfolding print_page_error_def by (intro steps_print) (simp add: quietD)

lemma steps_enter_body:
  assumes q: "quiet P"
    and h: "\<And>rq out. req_url rq = SERVER_URL \<Longrightarrow> P (Http rq out)"
  shows "steps P (enter_body E t)"
  unfolding enter_body_def Let_def
  by (intro steps_bind steps_start_session steps_get_from_user steps_get_name steps_getpass
      steps_print_end steps_request steps_raise_for_status steps_ensure_login steps_return q h)
     (simp_all add: quietD [OF q])

lemma steps_Teve_exit:
  assumes q: "quiet P"
    and c: "P Close_session" "P Session_exit"
    and h: "\<And>rq out. logged_in t \<Longrightarrow> req_url rq = SERVER_URL @ ustr ''/'' @ LOGOUT_LINK \<Longrightarrow> P (Http rq out)"
  shows "steps P (Teve_exit E t)"
proof (cases "logged_in t")
  case True
  show ?thesis
    unfolding Teve_exit_def using True
    by (simp only: if_True)
       (intro steps_bind steps_request steps_print steps_return steps_close_session h c,
        simp_all add: quietD [OF q])
next
  case False
  show ?thesis
    unfolding Teve_exit_def using False
    by (simp only: if_False)
       (intro steps_bind steps_return steps_close_session c)
qed

lemma steps_etet:
  assumes q: "quiet P"
    and h: "\<And>rq out. req_url rq = SERVER_URL @ ustr ''/'' @ TEVE_LINK \<Longrightarrow> P (Http rq out)"
  shows "steps P (etet E t)"
  unfolding etet_def Let_def
  by (intro steps_bind steps_if steps_print_end steps_print steps_request steps_lift
      steps_print_page_error steps_mail_error q h)
     (simp_all add: quietD [OF q])

lemma steps_tanit:
  assumes q: "quiet P"
    and h: "\<And>rq out. req_url rq = SERVER_URL @ ustr ''/'' @ TEACH_LINK \<Longrightarrow> P (Http rq out)"
  shows "steps P (tanit E t)"
  unfolding tanit_def Let_def
  by (intro steps_bind steps_if steps_print_end steps_print steps_request steps_lift
      steps_print_page_error steps_mail_error q h)
     (simp_all add: quietD [OF q])

lemma steps_main_handler: "quiet P \<Longrightarrow> steps P (main_handler E cfg exc)"
  unfolding main_handler_def
  by (intro steps_bind steps_lift steps_mail_error steps_raise) (simp_all add: quietD)

section \<open>Logout and entry\<close>

lemma bind_io_Inr:
  "bind_io m f w = (Inr b, w') \<Longrightarrow> \<exists>a w1. m w = (Inr a, w1) \<and> f a w1 = (Inr b, w')"
  by (auto simp: bind_io_def split: prod.splits sum.splits)

lemma enter_body_Inr:
  assumes "enter_body E t w = (Inr t', w1)"
  shows "t' = t\<lparr>logged_in := True\<rparr>"
  using assms unfolding enter_body_def Let_def
  by (auto dest!: bind_io_Inr simp: return_io_def)

lemma enter_body_session: "SESSION (snd (enter_body E t w)) \<noteq> None"
proof -
  define rest where "rest = (\<lambda>u::unit.
     bind_io (get_from_user_if_none (name t) get_name) (\<lambda>nm.
     bind_io (get_from_user_if_none (password t) getpass) (\<lambda>pw.
     let form = AList.update PASSWORD_FIELD pw (AList.update NAME_FIELD nm LOGIN_FORM) in
     bind_io (print_end login_banner []) (\<lambda>_.
     bind_io (request E None True (ustr ''post'') (Some form)) (\<lambda>response.
     bind_io (raise_for_status response) (\<lambda>_.
     bind_io (ensure_login E (mail_cfg t) response) (\<lambda>_.
     return_io (t\<lparr>logged_in := True\<rparr>))))))))"
  have r: "steps (\<lambda>ev. True) (rest ())"
    unfolding rest_def Let_def
    by (intro steps_bind steps_get_from_user steps_get_name steps_getpass
      steps_print_end steps_request steps_raise_for_status steps_ensure_login steps_return)
      (simp_all add: quiet_def)
  let ?w1 = "w\<lparr>trace := trace w @ [Session_start], SESSION := Some ()\<rparr>"
  have "enter_body E t w = rest () ?w1"
    by (simp add: enter_body_def rest_def bind_io_def start_session_def)
  moreover have "SESSION (snd (rest () ?w1)) \<noteq> None"
    using stepsD [OF r, of ?w1] by auto
  ultimately show ?thesis by simp
qed

lemma Teve_enter_Inr:
  "Teve_enter E t w = (Inr t', w1) \<longleftrightarrow> enter_body E t w = (Inr t', w1)"
  by (auto simp: Teve_enter_def split: prod.splits sum.splits)

lemma steps_Teve_enter:
  assumes q: "quiet P"
    and c: "P Close_session" "P Session_exit"
    and h: "\<And>rq out. req_url rq = SERVER_URL \<Longrightarrow> P (Http rq out)"
    and l: "\<not> logged_in t"
  shows "steps P (Teve_enter E t)"
proof (rule stepsI)
  fix w
  obtain r w1 where b: "enter_body E t w = (r, w1)" by (cases "enter_body E t w")
  obtain es where es: "trace w1 = trace w @ es" "list_all P es"
    "SESSION w \<noteq> None \<longrightarrow> SESSION w1 \<noteq> None"
    using stepsD [OF steps_enter_body [OF q h], of E t w] b by auto
  have x: "steps P (Teve_exit E t)"
    using l by (intro steps_Teve_exit q c) simp
  obtain es' where es': "trace (snd (Teve_exit E t w1)) = trace w1 @ es'" "list_all P es'"
    "SESSION w1 \<noteq> None \<longrightarrow> SESSION (snd (Teve_exit E t w1)) \<noteq> None"
    using stepsD [OF x, of w1] by blast
  have "snd (Teve_enter E t w) = w1 \<or> snd (Teve_enter E t w) = snd (Teve_exit E t w1)"
    by (auto simp: Teve_enter_def b split: prod.splits sum.splits)
  then show "\<exists>es. trace (snd (Teve_enter E t w)) = trace w @ es \<and> list_all P es
          \<and> (SESSION w \<noteq> None \<longrightarrow> SESSION (snd (Teve_enter E t w)) \<noteq> None)"
  proof
    assume "snd (Teve_enter E t w) = w1"
    then show ?thesis using es by auto
  next
    assume "snd (Teve_enter E t w) = snd (Teve_exit E t w1)"
    then have "trace (snd (Teve_enter E t w)) = trace w @ (es @ es')"
      and "list_all P (es @ es')"
      and "SESSION w \<noteq> None \<longrightarrow> SESSION (snd (Teve_enter E t w)) \<noteq> None"
      using es es' by auto
    then show ?thesis by blast
  qed
qed

lemma get_is_session_method: "ustr ''get'' \<in> set session_methods"
  by (simp add: session_methods_def)

lemma Teve_exit_logged_in:
  assumes "logged_in t" and "SESSION w \<noteq> None"
  shows "\<exists>out es. trace (snd (Teve_exit E t w)) = trace w @ Http logout_request out # es
           \<and> list_all (\<lambda>ev. \<not> is_http ev) es"
  using assms
  by (auto simp: Teve_exit_def request_def bind_io_def getattr_session_def
      get_is_session_method session_call_def Let_def logout_request_def raise_for_status_def
      raise_io_def return_io_def print_def print_end_def emit_def close_session_def
      split: sum.splits option.splits)

lemma with_exit_snd: "snd (with_exit body ex w) = snd (ex (snd (body w)))"
  by (auto simp: with_exit_def split: prod.splits sum.splits)

lemma bind_return_snd: "snd (bind_io m (\<lambda>_. return_io u) w) = snd (m w)"
  by (auto simp: bind_io_def return_io_def split: prod.splits sum.splits)

lemma workflow_entered:
  "Teve_enter E t w = (Inr t', w1) \<Longrightarrow>
   workflow E t w =
     with_exit (bind_io (etet E t') (\<lambda>_. tanit E t'))
       (bind_io (Teve_exit E t') (\<lambda>_. return_io ())) w1"
  by (simp add: workflow_def bind_io_def [of "Teve_enter E t"])

lemma main_after_try:
  assumes "quiet P"
  shows "\<exists>es. trace (snd (main E cfg w)) = trace (snd (main_try E cfg w)) @ es
        \<and> list_all P es"
proof -
  obtain r w1 where t: "main_try E cfg w = (r, w1)" by (cases "main_try E cfg w")
  show ?thesis
  proof (cases r)
    case (Inr u)
    then show ?thesis by (simp add: main_def t)
  next
    case (Inl exc)
    have "steps P (main_handler E cfg exc)"
      using assms by (rule steps_main_handler)
    from stepsD [OF this, of w1] show ?thesis
      using Inl by (auto simp: main_def t)
  qed
qed

lemma no_http_no_logout: "list_all (\<lambda>ev. \<not> is_http ev) es \<Longrightarrow> filter is_logout_request es = []"
  by (induction es) (auto elim: is_logout_request.elims)

lemma no_logout_filter: "list_all (\<lambda>ev. \<not> is_logout_request ev) es \<Longrightarrow> filter is_logout_request es = []"
  by (induction es) auto

lemma quiet_no_logout: "quiet (\<lambda>ev. \<not> is_logout_request ev)"
  unfolding quiet_def by (auto elim: is_logout_request.elims)

lemma Teve_init_not_logged_in: "Teve_init cfg = Inr t \<Longrightarrow> \<not> logged_in t"
  by (auto simp: Teve_init_def split: sum.splits)

lemma new_events_append: "trace w' = trace w @ es \<Longrightarrow> new_events w w' = es"
  by (simp add: new_events_def)

text \<open>
  C1, amended.  In every run the logout request, the GET to the logout sub-link, is sent
  exactly once when the entry step completed without raising, which is when the object is
  marked logged in, whatever the classifier said of the login response; it is not sent when
  the entry step raised.
\<close>

theorem logout_iff_entry_completed:
  "length (filter is_logout_request (new_events w (snd (main E cfg w))))
     = (if entry_completed E cfg w then 1 else 0)"
proof -
  let ?P = "\<lambda>ev. \<not> is_logout_request ev"
  obtain es4 where m: "trace (snd (main E cfg w)) = trace (snd (main_try E cfg w)) @ es4"
    and es4: "filter is_logout_request es4 = []"
    using main_after_try [OF quiet_no_logout, of E cfg w] no_logout_filter by blast
  show ?thesis
  proof (cases "Teve_init cfg")
    case (Inl e)
    then have "main_try E cfg w = (Inl e, w)"
      by (simp add: main_try_def bind_io_def lift_io_def)
    then have "new_events w (snd (main E cfg w)) = es4"
      using m by (simp add: new_events_def)
    then show ?thesis using es4 Inl by (simp add: entry_completed_def)
  next
    case (Inr t)
    then have nl: "\<not> logged_in t" by (rule Teve_init_not_logged_in)
    have mt: "main_try E cfg w = workflow E t w"
      using Inr by (simp add: main_try_def bind_io_def lift_io_def)
    obtain r w1 where en: "Teve_enter E t w = (r, w1)" by (cases "Teve_enter E t w")
    have "steps ?P (Teve_enter E t)"
      by (rule steps_Teve_enter [OF quiet_no_logout _ _ _ nl])
         (auto simp: ustr_def TEVE_LINK_def TEACH_LINK_def LOGOUT_LINK_def)
    from stepsD [OF this, of w] obtain es1 where es1: "trace w1 = trace w @ es1"
      "filter is_logout_request es1 = []"
      using en no_logout_filter by auto
    show ?thesis
    proof (cases r)
      case (Inl e)
      then have "workflow E t w = (Inl e, w1)"
        by (simp add: workflow_def bind_io_def en)
      then have "new_events w (snd (main E cfg w)) = es1 @ es4"
        using m mt es1 by (simp add: new_events_def)
      moreover have "\<not> entry_completed E cfg w"
        using Inr Inl en by (simp add: entry_completed_def)
      ultimately show ?thesis using es1 es4 by simp
    next
      case r: (Inr t')
      then have eb: "enter_body E t w = (Inr t', w1)" using en Teve_enter_Inr by simp
      then have t': "logged_in t'" using enter_body_Inr by fastforce
      have s1: "SESSION w1 \<noteq> None" using enter_body_session [of E t w] eb by simp
      let ?body = "bind_io (etet E t') (\<lambda>_. tanit E t')"
      have "steps ?P ?body"
        by (intro steps_bind steps_etet steps_tanit quiet_no_logout) (auto simp: ustr_def TEVE_LINK_def TEACH_LINK_def LOGOUT_LINK_def)
      from stepsD [OF this, of w1] obtain es2
        where es2: "trace (snd (?body w1)) = trace w1 @ es2" "filter is_logout_request es2 = []"
          and s2: "SESSION (snd (?body w1)) \<noteq> None"
        using s1 no_logout_filter by auto
      obtain out es3 where es3: "trace (snd (Teve_exit E t' (snd (?body w1))))
            = trace (snd (?body w1)) @ Http logout_request out # es3"
          "filter is_logout_request es3 = []"
        using Teve_exit_logged_in [OF t' s2, of E] no_http_no_logout by blast
      have "snd (workflow E t w) = snd (Teve_exit E t' (snd (?body w1)))"
        using en r by (simp add: workflow_entered with_exit_snd bind_return_snd)
      then have "new_events w (snd (main E cfg w))
          = es1 @ es2 @ Http logout_request out # es3 @ es4"
        using m mt es1 es2 es3 by (simp add: new_events_def)
      moreover have "entry_completed E cfg w"
        using Inr r en by (simp add: entry_completed_def)
      moreover have "is_logout_request (Http logout_request out)"
        by (simp add: logout_request_def)
      ultimately show ?thesis using es1 es2 es3 es4 by simp
    qed
  qed
qed

section \<open>The maximum option\<close>

lemma py_max_Max: "py_max vs = Inr (Max (set vs))" if "vs \<noteq> []"
proof (cases vs)
  case Nil
  then show ?thesis using that by simp
next
  case (Cons v vs')
  have "fold max vs' v = Max (set (v # vs'))" by (simp only: Max.set_eq_fold)
  then show ?thesis using Cons by simp
qed

lemma int_texts_map:
  "map (\<lambda>opt. to_int (get_text opt)) opts = map Some vs \<Longrightarrow> int_texts to_int opts = Inr vs"
  by (induction opts arbitrary: vs) auto

lemma find_attrs_None:
  "find_attrs soup k v = None \<longleftrightarrow> (\<forall>n \<in> set (descendants soup). \<not> has_attr k v n)"
  by (auto simp: find_attrs_def find_None_iff)

text \<open>
  C3.  When the document has no tag whose \<open>name\<close> attribute is the given name, the
  computed maximum is 0.  When it has one, and the texts of the option elements below the
  first such tag convert to the integers \<open>vs\<close>, of which there is at least one, the
  computed maximum is the maximum of \<open>vs\<close>.
\<close>

theorem max_option_correct:
  "((\<forall>n \<in> set (descendants soup). \<not> has_attr (ustr ''name'') nm n)
      \<longrightarrow> max_option to_int soup nm = Inr 0)
   \<and> (\<forall>control vs.
        find_attrs soup (ustr ''name'') nm = Some control
        \<and> map (\<lambda>opt. to_int (get_text opt)) (find_all control (ustr ''option'')) = map Some vs
        \<and> vs \<noteq> []
      \<longrightarrow> max_option to_int soup nm = Inr (Max (set vs)))"
  by (auto simp: max_option_def find_attrs_None [symmetric] int_texts_map py_max_Max)

lemma hungry_kaja:
  "find_attrs hungry_page (ustr ''name'') (ustr ''kaja'')
     = Some (select_of (ustr ''kaja'') [ustr ''1'', ustr ''3'', ustr ''2''])"
  by code_simp

lemma hungry_kaja_texts:
  "map (\<lambda>opt. digits_int (get_text opt))
     (find_all (select_of (ustr ''kaja'') [ustr ''1'', ustr ''3'', ustr ''2'']) (ustr ''option''))
   = map Some [1, 3, 2]"
  by code_simp

lemma empty_page_no_control:
  "\<forall>n \<in> set (descendants empty_page). \<not> has_attr (ustr ''name'') (ustr ''kaja'') n"
  by (simp add: empty_page_def)

theorem max_option_correct_witness:
  "max_option digits_int hungry_page (ustr ''kaja'') = Inr 3
   \<and> max_option digits_int empty_page (ustr ''kaja'') = Inr 0"
proof -
  have "max_option digits_int hungry_page (ustr ''kaja'') = Inr (Max (set [1, 3, 2]))"
    using max_option_correct [of hungry_page "ustr ''kaja''" digits_int]
      hungry_kaja hungry_kaja_texts by blast
  moreover have "max_option digits_int empty_page (ustr ''kaja'') = Inr 0"
    using max_option_correct [of empty_page "ustr ''kaja''" digits_int]
      empty_page_no_control by blast
  ultimately show ?thesis by simp
qed

lemma max_option_empty:
  "find_attrs soup (ustr ''name'') nm = Some control \<Longrightarrow>
   find_all control (ustr ''option'') = [] \<Longrightarrow>
   max_option to_int soup nm = Inl EmptyMaxValueError"
  by (simp add: max_option_def)


lemma int_texts_error: "int_texts to_int opts = Inl e \<Longrightarrow> is_value_error e"
  by (induction opts) (auto split: option.splits sum.splits)

lemma py_max_error: "py_max vs = Inl e \<Longrightarrow> is_value_error e"
  by (cases vs) auto

lemma max_option_error: "max_option to_int soup nm = Inl e \<Longrightarrow> is_value_error e"
  by (auto simp: max_option_def split: option.splits sum.splits
      dest: int_texts_error py_max_error)

lemma request_ok:
  assumes "SESSION w \<noteq> None" and "method \<in> set session_methods"
    and "net E (trace w) \<lparr>req_method = method,
           req_url = (case link of None \<Rightarrow> SERVER_URL | Some l \<Rightarrow> SERVER_URL @ ustr ''/'' @ l),
           req_headers = (if use_headers then Some HEADER else None), req_data = data\<rparr> = Inr r"
  shows "request E link use_headers method data w =
     ((if 400 \<le> status_code r \<and> status_code r < 600 then Inl (HTTPError r) else Inr r),
      w\<lparr>trace := trace w @ [Http \<lparr>req_method = method,
           req_url = (case link of None \<Rightarrow> SERVER_URL | Some l \<Rightarrow> SERVER_URL @ ustr ''/'' @ l),
           req_headers = (if use_headers then Some HEADER else None), req_data = data\<rparr> (Inr r)]\<rparr>)"
  using assms
  by (auto simp: request_def bind_io_def getattr_session_def session_call_def Let_def
      raise_for_status_def raise_io_def return_io_def split: option.splits)

lemma request_trace:
  assumes "SESSION w \<noteq> None" and "method \<in> set session_methods"
  shows "\<exists>out. trace (snd (request E link use_headers method data w)) =
     trace w @ [Http \<lparr>req_method = method,
           req_url = (case link of None \<Rightarrow> SERVER_URL | Some l \<Rightarrow> SERVER_URL @ ustr ''/'' @ l),
           req_headers = (if use_headers then Some HEADER else None), req_data = data\<rparr> out]
     \<and> SESSION (snd (request E link use_headers method data w)) = SESSION w"
  using assms
  by (auto simp: request_def bind_io_def getattr_session_def session_call_def Let_def
      raise_for_status_def raise_io_def return_io_def split: option.splits sum.splits)

lemma bind_trace:
  assumes "trace (snd (m w)) = trace w @ es1" and "\<And>a. steps P (f a)"
  shows "\<exists>es2. trace (snd (bind_io m f w)) = trace w @ es1 @ es2 \<and> list_all P es2"
proof -
  obtain r w1 where mw: "m w = (r, w1)" by (cases "m w")
  show ?thesis
  proof (cases r)
    case (Inl e)
    then show ?thesis using assms(1) mw by (simp add: bind_io_def)
  next
    case (Inr a)
    from stepsD [OF assms(2), of a w1] show ?thesis
      using assms(1) mw Inr by (auto simp: bind_io_def)
  qed
qed

lemma no_http_filter: "list_all (\<lambda>ev. \<not> is_http ev) es \<Longrightarrow> filter is_http es = []"
  by (induction es) auto

section \<open>Runs on the example sites\<close>

lemmas run_defs = main_def main_try_def main_handler_def workflow_def Teve_init_def
  Teve_enter_def enter_body_def Teve_exit_def etet_def tanit_def ensure_login_def
  mail_error_def smtp_do_def header_store_parse_def set_content_def plain_header_def
  plain_content_def plain_address_def is_alnum_def request_def getattr_session_def
  session_methods_def session_call_def raise_for_status_def start_session_def
  close_session_def get_from_user_if_none_def print_def print_end_def print_page_error_def
  emit_def bind_io_def return_io_def raise_io_def lift_io_def with_exit_def getitem_def
  initial_world_def site_env_def example_config_def Let_def
  max_option_def find_attrs_def find_all_def empty_page_def
  parse_login_status_def parse_teach_success_def parse_feed_success_def py_not_def
  re_search_def login_failure_pattern_def login_failure_phrase_def teach_success_pattern_def
  teach_success_phrase_def feeding_is_still_possible_def literal_def page_text_def
  fatal_subject_def fatal_message_def LOGIN_FORM_def NAME_FIELD_def PASSWORD_FIELD_def
  is_linebreak_def SERVER_URL_def TEVE_LINK_def TEACH_LINK_def LOGOUT_LINK_def HEADER_def
  login_failure_message_def login_failure_subject_def login_banner_def feed_banner_def
  ustr_def

text \<open>
  C5 fails on the code: the handler passes the text that holds the exception as the
  subject, with two line feeds in it, so composing the message raises and no mail is
  sent; the process ends with that \<^verbatim>\<open>ValueError\<close>.  Here the login form is answered
  with 500.
\<close>

theorem fatal_mail_never_sent:
  "fst (main (site_env broken_site empty_page) example_config (initial_world []))
     = Inl (HeaderValueError (fatal_subject (ustr ''error'')))
   \<and> filter is_mail_sent
       (trace (snd (main (site_env broken_site empty_page) example_config (initial_world []))))
     = []"
  by (simp add: run_defs broken_site_def)

text \<open>
  C1, as stated, fails when login succeeding is read as the classifier accepting the
  response: on a site that answers the login form with the failure phrase the run sends
  the logout request all the same.
\<close>

theorem logout_after_rejected_login:
  "list_ex is_logout_request
     (trace (snd (main (site_env rejecting_site empty_page) example_config (initial_world []))))
   \<and> \<not> list_ex is_accepted_login
     (trace (snd (main (site_env rejecting_site empty_page) example_config (initial_world []))))"
  by (simp add: run_defs rejecting_site_def)

text \<open>
  C2 fails on the code: when the logout request raises (here the logout page answers 500),
  \<^verbatim>\<open>__exit__\<close> is left before \<^verbatim>\<open>close_session\<close> is reached, and the run ends without
  a single call of it.
\<close>

theorem close_session_skipped:
  "count_list
     (trace (snd (main (site_env failing_logout_site empty_page) example_config (initial_world []))))
     Close_session = 0
   \<and> list_ex is_logout_request
     (trace (snd (main (site_env failing_logout_site empty_page) example_config (initial_world []))))"
  by (simp add: run_defs failing_logout_site_def)

section \<open>Login failure\<close>

lemma bind_emit: "bind_io (emit ev) f w = f () (w\<lparr>trace := trace w @ [ev]\<rparr>)"
  by (simp add: bind_io_def emit_def)

lemma bind_lift_Inr: "bind_io (lift_io (Inr a)) f w = f a w"
  by (simp add: bind_io_def lift_io_def)

lemma bind_lift_Inl: "bind_io (lift_io (Inl e)) f w = (Inl e, w)"
  by (simp add: bind_io_def lift_io_def)

lemma bind_result: "m w = (Inr a, w1) \<Longrightarrow> bind_io m f w = f a w1"
  by (simp add: bind_io_def)

lemma bind_raise: "m w = (Inl e, w1) \<Longrightarrow> bind_io m f w = (Inl e, w1)"
  by (simp add: bind_io_def)

lemma post_is_session_method: "ustr ''post'' \<in> set session_methods"
  by (simp add: session_methods_def)

lemma mail_error_sends:
  assumes relay: "\<And>tr step. smtp E tr step = None"
    and cfg: "map_of cfg (ustr ''sender'') = Some sndr" "map_of cfg (ustr ''pass'') = Some mpw"
      "map_of cfg (ustr ''recipient'') = Some rcpt"
    and body: "set_content_error E
        (case page of None \<Rightarrow> msg | Some pg \<Rightarrow> msg @ [10, 10] @ body_text pg) = None"
    and lines: "length (splitlines subj) \<le> 1" "length (splitlines sndr) \<le> 1"
      "length (splitlines rcpt) \<le> 1"
    and headers: "header_error E (ustr ''Subject'') subj = None"
      "header_error E (ustr ''From'') sndr = None" "header_error E (ustr ''To'') rcpt = None"
  shows "mail_error E cfg msg subj page w =
     (Inr (), w\<lparr>trace := trace w @
        [Smtp Connect None, Smtp (Login sndr mpw) None,
         Smtp (Send_message \<lparr>content = (case page of None \<Rightarrow> msg
                                           | Some pg \<Rightarrow> msg @ [10, 10] @ body_text pg),
                              subject = subj, sender = sndr, recipient = rcpt\<rparr>) None,
         Smtp Quit None]\<rparr>)"
proof -
  have c: "set_content E (case page of None \<Rightarrow> msg | Some pg \<Rightarrow> msg @ [10, 10] @ page_text pg)
      = Inr (case page of None \<Rightarrow> msg | Some pg \<Rightarrow> msg @ [10, 10] @ body_text pg)"
    using body by (cases page) (simp_all add: set_content_def page_text_def)
  have h: "header_store_parse E (ustr ''Subject'') subj = Inr subj"
    "header_store_parse E (ustr ''From'') sndr = Inr sndr"
    "header_store_parse E (ustr ''To'') rcpt = Inr rcpt"
    using lines headers by (simp_all add: header_store_parse_def)
  show ?thesis
    using relay cfg
    by (simp add: mail_error_def bind_io_def lift_io_def getitem_def smtp_do_def with_exit_def
        c h Let_def)
qed

text \<open>
  C6.  When the site answers the login form with a response that the classifier rejects,
  and the notification can be delivered (the relay accepts every step, the mail
  configuration has its three keys, and the \<^verbatim>\<open>email\<close> package accepts the content, the
  subject, and sender and recipient, which are single lines, as address headers), the
  entry step does not raise: it sends one mail whose content is the failure message, an
  empty line and the response body, marks the object logged in, and the run goes on with
  the body of the \<^verbatim>\<open>with\<close> block, the feed step and then the teach step, from there.
\<close>

theorem login_failure_not_fatal:
  assumes init: "Teve_init cfg = Inr t"
    and who: "name t = Some nm" "password t = Some pw"
    and site: "\<And>tr. net E tr (login_request nm pw) = Inr r"
    and status: "\<not> (400 \<le> status_code r \<and> status_code r < 600)"
    and failed: "\<not> truthy (parse_login_status r)"
    and relay: "\<And>tr step. smtp E tr step = None"
    and mail: "map_of (mail_cfg t) (ustr ''sender'') = Some sndr"
      "map_of (mail_cfg t) (ustr ''pass'') = Some mpw"
      "map_of (mail_cfg t) (ustr ''recipient'') = Some rcpt"
    and body: "set_content_error E (login_failure_message @ [10, 10] @ body_text r) = None"
    and lines: "length (splitlines sndr) \<le> 1" "length (splitlines rcpt) \<le> 1"
    and headers: "header_error E (ustr ''Subject'') login_failure_subject = None"
      "header_error E (ustr ''From'') sndr = None" "header_error E (ustr ''To'') rcpt = None"
  shows "Teve_enter E t w =
       (Inr (t\<lparr>logged_in := True\<rparr>),
        w\<lparr>trace := trace w @
             [Session_start, Stdout login_banner, Http (login_request nm pw) (Inr r),
              Smtp Connect None, Smtp (Login sndr mpw) None,
              Smtp (Send_message
                \<lparr>content = login_failure_message @ [10, 10] @ body_text r,
                 subject = login_failure_subject, sender = sndr, recipient = rcpt\<rparr>) None,
              Smtp Quit None],
           SESSION := Some ()\<rparr>)
     \<and> main_try E cfg w =
         with_exit (bind_io (etet E (t\<lparr>logged_in := True\<rparr>)) (\<lambda>_. tanit E (t\<lparr>logged_in := True\<rparr>)))
           (bind_io (Teve_exit E (t\<lparr>logged_in := True\<rparr>)) (\<lambda>_. return_io ()))
           (snd (Teve_enter E t w))"
proof -
  have subj: "length (splitlines login_failure_subject) \<le> 1"
    by (simp add: login_failure_subject_def ustr_def is_linebreak_def)
  have form: "AList.update PASSWORD_FIELD pw (AList.update NAME_FIELD nm LOGIN_FORM) =
      [(ustr ''x'', ustr ''26''), (ustr ''y'', ustr ''22''), (ustr ''login'', ustr ''Gyere!''),
       (ustr ''tevenev'', nm), (ustr ''pass'', pw)]"
    by (simp add: LOGIN_FORM_def NAME_FIELD_def PASSWORD_FIELD_def ustr_def)
  have rq: "request E None True (ustr ''post'')
        (Some [(ustr ''x'', ustr ''26''), (ustr ''y'', ustr ''22''),
               (ustr ''login'', ustr ''Gyere!''), (ustr ''tevenev'', nm), (ustr ''pass'', pw)]) v =
      (Inr r, v\<lparr>trace := trace v @ [Http (login_request nm pw) (Inr r)]\<rparr>)"
    if "SESSION v \<noteq> None" for v
    using request_ok [of v "ustr ''post''" E None True _ r] site status that
    by (simp add: post_is_session_method login_request_def)
  have sent: "mail_error E (mail_cfg t) login_failure_message login_failure_subject (Some r) v =
     (Inr (), v\<lparr>trace := trace v @
        [Smtp Connect None, Smtp (Login sndr mpw) None,
         Smtp (Send_message \<lparr>content = login_failure_message @ [10, 10] @ body_text r,
                              subject = login_failure_subject, sender = sndr,
                              recipient = rcpt\<rparr>) None,
         Smtp Quit None]\<rparr>)" for v
    using mail_error_sends [OF relay mail _ subj lines headers, of login_failure_message "Some r" v]
      body by simp
  have entered: "enter_body E t w =
       (Inr (t\<lparr>logged_in := True\<rparr>),
        w\<lparr>trace := trace w @
             [Session_start, Stdout login_banner, Http (login_request nm pw) (Inr r),
              Smtp Connect None, Smtp (Login sndr mpw) None,
              Smtp (Send_message
                \<lparr>content = login_failure_message @ [10, 10] @ body_text r,
                 subject = login_failure_subject, sender = sndr, recipient = rcpt\<rparr>) None,
              Smtp Quit None],
           SESSION := Some ()\<rparr>)"
    unfolding enter_body_def Let_def
    by (simp add: form bind_io_def start_session_def who get_from_user_if_none_def
        return_io_def raise_io_def print_end_def emit_def rq raise_for_status_def status
        ensure_login_def failed sent)
  then have enter: "Teve_enter E t w = enter_body E t w"
    by (simp add: Teve_enter_def)
  have "main_try E cfg w = workflow E t w"
    using init by (simp add: main_try_def bind_lift_Inr)
  then show ?thesis
    using enter entered by (simp add: workflow_entered)
qed

theorem login_failure_not_fatal_witness:
  "fst (Teve_enter (site_env rejecting_site empty_page) example_teve (initial_world []))
     = Inr (example_teve\<lparr>logged_in := True\<rparr>)
   \<and> filter is_mail_sent
       (trace (snd (Teve_enter (site_env rejecting_site empty_page) example_teve
          (initial_world []))))
     = [Smtp (Send_message
          \<lparr>content = login_failure_message @ [10, 10] @ login_failure_phrase,
           subject = login_failure_subject, sender = ustr ''xyz@mail.com'',
           recipient = ustr ''mokus@mail.com''\<rparr>) None]"
proof -
  let ?E = "site_env rejecting_site empty_page"
  let ?r = "\<lparr>status_code = 200, body_text = login_failure_phrase\<rparr>"
  have init: "Teve_init example_config = Inr example_teve"
    by (simp add: Teve_init_def example_config_def example_teve_def getitem_def ustr_def)
  have who: "name example_teve = Some (ustr ''Macska'')"
    "password example_teve = Some (ustr ''SoseTudodMeg'')"
    by (simp_all add: example_teve_def)
  have site: "\<And>tr. net ?E tr (login_request (ustr ''Macska'') (ustr ''SoseTudodMeg'')) = Inr ?r"
    by (simp add: site_env_def rejecting_site_def login_request_def)
  have status: "\<not> (400 \<le> status_code ?r \<and> status_code ?r < 600)" by simp
  have failed: "\<not> truthy (parse_login_status ?r)"
    by (simp add: parse_login_status_def py_not_def re_search_def login_failure_pattern_def
        re_search_from_literal contains_iff page_text_def)
       (rule exI [of _ "[]"], simp)
  have relay: "\<And>tr step. smtp ?E tr step = None" by (simp add: site_env_def)
  have mail: "map_of (mail_cfg example_teve) (ustr ''sender'') = Some (ustr ''xyz@mail.com'')"
    "map_of (mail_cfg example_teve) (ustr ''pass'') = Some (ustr ''NemMondomEl'')"
    "map_of (mail_cfg example_teve) (ustr ''recipient'') = Some (ustr ''mokus@mail.com'')"
    by (simp_all add: example_teve_def ustr_def)
  have body: "set_content_error ?E (login_failure_message @ [10, 10] @ body_text ?r) = None"
    by (simp add: site_env_def plain_content_def login_failure_message_def
        login_failure_phrase_def ustr_def)
  have lines: "length (splitlines (ustr ''xyz@mail.com'')) \<le> 1"
    "length (splitlines (ustr ''mokus@mail.com'')) \<le> 1"
    by (simp_all add: ustr_def is_linebreak_def)
  have headers: "header_error ?E (ustr ''Subject'') login_failure_subject = None"
    "header_error ?E (ustr ''From'') (ustr ''xyz@mail.com'') = None"
    "header_error ?E (ustr ''To'') (ustr ''mokus@mail.com'') = None"
    by (simp_all add: site_env_def plain_header_def plain_address_def is_alnum_def
        login_failure_subject_def ustr_def)
  note th = login_failure_not_fatal [OF init who site status failed relay mail body lines
      headers, of "initial_world []"]
  show ?thesis using th by (simp add: initial_world_def)
qed

section \<open>The feed step\<close>

lemma steps_after_feed:
  "steps (\<lambda>ev. \<not> is_http ev)
     (let success = parse_feed_success response in
      if truthy success then print (ustr ''OK'')
      else bind_io (print_page_error response) (\<lambda>_. mail_error E cfg msg subj (Some response)))"
  unfolding Let_def
  by (intro steps_if steps_print steps_bind steps_print_page_error steps_mail_error)
     (simp_all add: quiet_def)

text \<open>
  C7.  When the pet page was fetched and both maxima were computed, the requests of the
  feed step are: the GET of the pet page alone when both maxima are 0, and that GET
  followed by exactly one POST of the feed form, holding the two maxima as decimal texts
  and the fixed submit flag, otherwise.
\<close>

theorem feed_request_iff_nonzero:
  assumes sess: "SESSION w \<noteq> None"
    and site: "\<And>tr. net E tr pet_page_request = Inr r"
    and status: "\<not> (400 \<le> status_code r \<and> status_code r < 600)"
    and kaja: "max_option (py_int E) (html_parser E (page_text r)) (ustr ''kaja'') = Inr a"
    and pia: "max_option (py_int E) (html_parser E (page_text r)) (ustr ''pia'') = Inr b"
  shows "(a = 0 \<and> b = 0 \<longrightarrow>
            filter is_http (new_events w (snd (etet E t w))) = [Http pet_page_request (Inr r)])
       \<and> (\<not> (a = 0 \<and> b = 0) \<longrightarrow>
            (\<exists>out. filter is_http (new_events w (snd (etet E t w)))
               = [Http pet_page_request (Inr r), Http (feed_request a b) out]))"
proof -
  let ?w2 = "w\<lparr>trace := trace w @ [Stdout feed_banner, Http pet_page_request (Inr r)]\<rparr>"
  have get: "request E (Some TEVE_LINK) True (ustr ''get'') None v =
      (Inr r, v\<lparr>trace := trace v @ [Http pet_page_request (Inr r)]\<rparr>)"
    if "SESSION v \<noteq> None" for v
    using request_ok [of v "ustr ''get''" E "Some TEVE_LINK" True None r] site status that
    by (simp add: get_is_session_method pet_page_request_def)
  show ?thesis
  proof (cases "a = 0 \<and> b = 0")
    case True
    have "etet E t w = (Inr (), ?w2\<lparr>trace := trace ?w2 @
        [Stdout ((ustr ''OK (nem '' @ [233] @ ustr ''hes '' @ [233] @ ustr ''s nem is szomjas)'') @ [10])]\<rparr>)"
      unfolding etet_def Let_def
      using True
      by (simp add: bind_io_def print_end_def print_def emit_def get sess lift_io_def kaja pia)
    then show ?thesis using True by (simp add: new_events_def)
  next
    case False
    let ?post = "request E (Some TEVE_LINK) True (ustr ''post'')
        (Some [(ustr ''kaja'', str_int a), (ustr ''pia'', str_int b), (ustr ''etet'', ustr ''Mehet!'')])"
    define K where "K = (\<lambda>response.
       let success = parse_feed_success response in
       if truthy success then print (ustr ''OK'')
       else
         bind_io (print_page_error response) (\<lambda>_.
         mail_error E (mail_cfg t)
           (ustr ''Nem siker'' @ [252] @ ustr ''lt az etet'' @ [233] @ ustr ''s!'')
           (ustr ''Automatikus etet'' @ [233] @ ustr ''si kalamajka!'')
           (Some response)))"
    have e: "etet E t w = bind_io ?post K ?w2"
      unfolding etet_def K_def
      using False
      by (auto simp: bind_emit print_end_def
          bind_result [where m = "request E (Some TEVE_LINK) True (ustr ''get'') None", OF get]
          sess bind_lift_Inr kaja pia Let_def)
    have s2: "SESSION ?w2 \<noteq> None" using sess by simp
    obtain out where o: "trace (snd (?post ?w2)) = trace ?w2 @ [Http (feed_request a b) out]"
      using request_trace [OF s2 post_is_session_method, of E "Some TEVE_LINK" True]
      by (auto simp: feed_request_def)
    have k: "\<And>x. steps (\<lambda>ev. \<not> is_http ev) (K x)"
      unfolding K_def by (rule steps_after_feed)
    obtain es where es: "trace (snd (bind_io ?post K ?w2))
        = trace ?w2 @ [Http (feed_request a b) out] @ es" "list_all (\<lambda>ev. \<not> is_http ev) es"
      using bind_trace [where m = ?post and w = ?w2 and f = K, OF o k] by blast
    have "filter is_http (new_events w (snd (etet E t w)))
        = [Http pet_page_request (Inr r), Http (feed_request a b) out]"
      using es no_http_filter [OF es(2)] by (simp add: e new_events_def)
    then show ?thesis using False by blast
  qed
qed

lemma max_kaja_hungry: "max_option digits_int hungry_page (ustr ''kaja'') = Inr 3"
  by (simp add: max_option_def find_attrs_def find_all_def hungry_page_def select_of_def
      digits_int_def ustr_def)

lemma max_pia_hungry: "max_option digits_int hungry_page (ustr ''pia'') = Inr 2"
  by (simp add: max_option_def find_attrs_def find_all_def hungry_page_def select_of_def
      digits_int_def ustr_def)

lemma max_empty_page: "max_option digits_int empty_page nm = Inr 0"
  by (simp add: max_option_def find_attrs_def empty_page_def)

theorem feed_request_iff_nonzero_witness:
  "filter is_http
     (new_events \<lparr>trace = [], SESSION = Some (), stdin = []\<rparr>
        (snd (etet (site_env friendly_site empty_page) example_teve
           \<lparr>trace = [], SESSION = Some (), stdin = []\<rparr>)))
     = [Http pet_page_request (Inr \<lparr>status_code = 200, body_text = teach_success_phrase\<rparr>)]
   \<and> (\<exists>out. filter is_http
     (new_events \<lparr>trace = [], SESSION = Some (), stdin = []\<rparr>
        (snd (etet (site_env friendly_site hungry_page) example_teve
           \<lparr>trace = [], SESSION = Some (), stdin = []\<rparr>)))
     = [Http pet_page_request (Inr \<lparr>status_code = 200, body_text = teach_success_phrase\<rparr>),
        Http (feed_request 3 2) out])"
proof -
  let ?w = "\<lparr>trace = [], SESSION = Some (), stdin = []\<rparr>"
  let ?r = "\<lparr>status_code = 200, body_text = teach_success_phrase\<rparr>"
  have sess: "SESSION ?w \<noteq> None" by simp
  have status: "\<not> (400 \<le> status_code ?r \<and> status_code ?r < 600)" by simp
  have site: "\<And>tr. net (site_env friendly_site pg) tr pet_page_request = Inr ?r" for pg
    by (simp add: site_env_def friendly_site_def)
  have e: "max_option (py_int (site_env friendly_site empty_page))
        (html_parser (site_env friendly_site empty_page) (page_text ?r)) nm = Inr 0" for nm
    by (simp add: site_env_def max_empty_page)
  have k: "max_option (py_int (site_env friendly_site hungry_page))
        (html_parser (site_env friendly_site hungry_page) (page_text ?r)) (ustr ''kaja'') = Inr 3"
    by (simp add: site_env_def max_kaja_hungry)
  have p: "max_option (py_int (site_env friendly_site hungry_page))
        (html_parser (site_env friendly_site hungry_page) (page_text ?r)) (ustr ''pia'') = Inr 2"
    by (simp add: site_env_def max_pia_hungry)
  show ?thesis
    using feed_request_iff_nonzero [OF sess site status e e, of example_teve]
      feed_request_iff_nonzero [OF sess site status k p, of example_teve]
    by simp
qed

lemma with_exit_raises:
  "body w = (Inl e, w1) \<Longrightarrow> \<exists>e' w'. with_exit body ex w = (Inl e', w')"
  by (auto simp: with_exit_def split: prod.splits sum.splits)

text \<open>
  C10.  When the fetched pet page has a control named "kaja" or "pia" (the first tag with
  that \<open>name\<close> attribute) with no option element below it, the maximum-option
  computation for that name raises the \<^verbatim>\<open>ValueError\<close> of \<^verbatim>\<open>max\<close> on an empty list; the
  feed step raises a \<^verbatim>\<open>ValueError\<close> right after the GET, without a feed request, and the
  run reaches the top-level handler.
\<close>

theorem empty_option_group_aborts:
  assumes init: "Teve_init cfg = Inr t"
    and enter: "Teve_enter E t w0 = (Inr t', w)"
    and site: "\<And>tr. net E tr pet_page_request = Inr r"
    and status: "\<not> (400 \<le> status_code r \<and> status_code r < 600)"
    and nm: "nm = ustr ''kaja'' \<or> nm = ustr ''pia''"
    and control: "find_attrs (html_parser E (page_text r)) (ustr ''name'') nm = Some control"
    and empty: "find_all control (ustr ''option'') = []"
  shows "max_option (py_int E) (html_parser E (page_text r)) nm = Inl EmptyMaxValueError
     \<and> (\<exists>e. etet E t' w =
           (Inl e, w\<lparr>trace := trace w @ [Stdout feed_banner, Http pet_page_request (Inr r)]\<rparr>)
         \<and> is_value_error e)
     \<and> (\<exists>e w'. main_try E cfg w0 = (Inl e, w') \<and> main E cfg w0 = main_handler E cfg e w')"
proof -
  let ?soup = "html_parser E (page_text r)"
  let ?w2 = "w\<lparr>trace := trace w @ [Stdout feed_banner, Http pet_page_request (Inr r)]\<rparr>"
  have m: "max_option (py_int E) ?soup nm = Inl EmptyMaxValueError"
    using control empty by (rule max_option_empty)
  have sess: "SESSION w \<noteq> None"
    using enter enter_body_session [of E t w0] by (simp add: Teve_enter_Inr)
  have get: "request E (Some TEVE_LINK) True (ustr ''get'') None v =
      (Inr r, v\<lparr>trace := trace v @ [Http pet_page_request (Inr r)]\<rparr>)"
    if "SESSION v \<noteq> None" for v
    using request_ok [of v "ustr ''get''" E "Some TEVE_LINK" True None r] site status that
    by (simp add: get_is_session_method pet_page_request_def)
  have pre: "etet E t' w =
      bind_io (lift_io (max_option (py_int E) ?soup (ustr ''kaja''))) (\<lambda>max_kaja.
      bind_io (lift_io (max_option (py_int E) ?soup (ustr ''pia''))) (\<lambda>max_pia.
        (if max_kaja = 0 \<and> max_pia = 0
         then print (ustr ''OK (nem '' @ [233] @ ustr ''hes '' @ [233] @ ustr ''s nem is szomjas)'')
         else
           bind_io (request E (Some TEVE_LINK) True (ustr ''post'')
              (Some [(ustr ''kaja'', str_int max_kaja), (ustr ''pia'', str_int max_pia),
                     (ustr ''etet'', ustr ''Mehet!'')])) (\<lambda>response.
           if truthy (parse_feed_success response) then print (ustr ''OK'')
           else
             bind_io (print_page_error response) (\<lambda>_.
             mail_error E (mail_cfg t')
               (ustr ''Nem siker'' @ [252] @ ustr ''lt az etet'' @ [233] @ ustr ''s!'')
               (ustr ''Automatikus etet'' @ [233] @ ustr ''si kalamajka!'')
               (Some response)))))) ?w2"
    unfolding etet_def Let_def
    by (simp add: bind_emit print_end_def sess
        bind_result [where m = "request E (Some TEVE_LINK) True (ustr ''get'') None", OF get])
  have raises: "\<exists>e. etet E t' w = (Inl e, ?w2) \<and> is_value_error e"
  proof (cases "max_option (py_int E) ?soup (ustr ''kaja'')")
    case (Inl e)
    then have "etet E t' w = (Inl e, ?w2)" by (simp add: pre bind_lift_Inl)
    then show ?thesis using max_option_error [OF Inl] by blast
  next
    case (Inr a)
    show ?thesis
    proof (cases "nm = ustr ''kaja''")
      case True
      then show ?thesis using m Inr by simp
    next
      case False
      then have "max_option (py_int E) ?soup (ustr ''pia'') = Inl EmptyMaxValueError"
        using nm m by simp
      then have "etet E t' w = (Inl EmptyMaxValueError, ?w2)"
        using Inr by (simp add: pre bind_lift_Inr bind_lift_Inl)
      then show ?thesis by simp
    qed
  qed
  then obtain e where e: "etet E t' w = (Inl e, ?w2)" by blast
  have "bind_io (etet E t') (\<lambda>_. tanit E t') w = (Inl e, ?w2)"
    using e by (simp add: bind_io_def)
  then obtain e' w' where "with_exit (bind_io (etet E t') (\<lambda>_. tanit E t'))
      (bind_io (Teve_exit E t') (\<lambda>_. return_io ())) w = (Inl e', w')"
    using with_exit_raises by blast
  then have "main_try E cfg w0 = (Inl e', w')"
    using init enter by (simp add: main_try_def bind_lift_Inr workflow_entered)
  then have "main_try E cfg w0 = (Inl e', w') \<and> main E cfg w0 = main_handler E cfg e' w'"
    by (simp add: main_def)
  then show ?thesis using m raises by blast
qed

theorem empty_option_group_aborts_witness:
  "max_option digits_int no_options_page (ustr ''kaja'') = Inl EmptyMaxValueError
   \<and> (\<exists>e w'. main_try (site_env friendly_site no_options_page) example_config (initial_world [])
               = (Inl e, w')
        \<and> main (site_env friendly_site no_options_page) example_config (initial_world [])
               = main_handler (site_env friendly_site no_options_page) example_config e w')"
proof -
  let ?E = "site_env friendly_site no_options_page"
  let ?r = "\<lparr>status_code = 200, body_text = teach_success_phrase\<rparr>"
  have init: "Teve_init example_config = Inr example_teve"
    by (simp add: Teve_init_def example_config_def example_teve_def getitem_def ustr_def)
  have "fst (Teve_enter ?E example_teve (initial_world [])) = Inr (example_teve\<lparr>logged_in := True\<rparr>)"
    by (simp add: run_defs friendly_site_def example_teve_def)
  then have enter: "Teve_enter ?E example_teve (initial_world []) =
      (Inr (example_teve\<lparr>logged_in := True\<rparr>), snd (Teve_enter ?E example_teve (initial_world [])))"
    by (simp add: prod_eq_iff)
  have site: "\<And>tr. net ?E tr pet_page_request = Inr ?r"
    by (simp add: site_env_def friendly_site_def)
  have status: "\<not> (400 \<le> status_code ?r \<and> status_code ?r < 600)" by simp
  have nm: "ustr ''kaja'' = ustr ''kaja'' \<or> ustr ''kaja'' = ustr ''pia''" by simp
  have control: "find_attrs (html_parser ?E (page_text ?r)) (ustr ''name'') (ustr ''kaja'')
      = Some (select_of (ustr ''kaja'') [])"
    by (simp add: site_env_def find_attrs_def no_options_page_def select_of_def)
  have empty: "find_all (select_of (ustr ''kaja'') []) (ustr ''option'') = []"
    by (simp add: find_all_def select_of_def)
  note th = empty_option_group_aborts [OF init enter site status nm control empty]
  show ?thesis using th by (simp add: site_env_def)
qed

section \<open>The status check of the session wrapper\<close>

text \<open>
  C4 fails on the code: a final response with status 304 is returned to the caller, not
  raised.  (\<open>request_ok\<close> gives the outcome for every status: an error is raised from 400
  to 599 only.)
\<close>

theorem request_returns_not_modified:
  "fst (request (site_env not_modified_site empty_page) None True (ustr ''get'') None
         \<lparr>trace = [], SESSION = Some (), stdin = []\<rparr>)
     = Inr \<lparr>status_code = 304, body_text = []\<rparr>"
  by (simp add: request_def bind_io_def getattr_session_def session_methods_def
      session_call_def site_env_def not_modified_site_def raise_for_status_def return_io_def
      Let_def)

section \<open>The mail of the top-level handler\<close>

lemma splitlines_Cons_mono: "length (splitlines s) \<le> length (splitlines (c # s))"
proof (cases s)
  case Nil
  then show ?thesis by simp
next
  case (Cons d cs)
  show ?thesis
  proof (cases "c = 13 \<and> d = 10")
    case True
    then show ?thesis using Cons by (cases cs) (simp_all add: is_linebreak_def)
  next
    case False
    then show ?thesis using Cons by (auto split: list.splits)
  qed
qed

lemma splitlines_append_mono: "length (splitlines s) \<le> length (splitlines (p @ s))"
proof (induction p)
  case Nil
  show ?case by simp
next
  case (Cons c p)
  have "length (splitlines (p @ s)) \<le> length (splitlines (c # p @ s))"
    by (rule splitlines_Cons_mono)
  then show ?case using Cons by simp
qed

lemma splitlines_two_feeds: "2 \<le> length (splitlines (10 # 10 # s))"
  by (cases s) (simp_all add: is_linebreak_def)

lemma fatal_subject_refused:
  "header_store_parse E nm (fatal_subject x) = Inl (HeaderValueError (fatal_subject x))"
proof -
  let ?p = "ustr ''Elpusztult az eg'' @ [233] @ ustr ''sz!!! '' @ [193, 193, 193, 193] @ ustr ''!!!''"
  have eq: "fatal_subject x = ?p @ (10 # 10 # x)"
    by (simp add: fatal_subject_def)
  have "2 \<le> length (splitlines (10 # 10 # x))"
    by (rule splitlines_two_feeds)
  also have "\<dots> \<le> length (splitlines (?p @ (10 # 10 # x)))"
    by (rule splitlines_append_mono)
  finally have two: "2 \<le> length (splitlines (?p @ (10 # 10 # x)))" .
  have "1 < length (splitlines (fatal_subject x))"
    unfolding eq using two by linarith
  then show ?thesis by (simp only: header_store_parse_def if_True)
qed

lemma mail_error_refused:
  assumes "header_store_parse E (ustr ''Subject'') subj = Inl e"
  shows "steps (\<lambda>ev. \<not> is_mail_sent ev) (mail_error E cfg msg subj page)"
proof -
  have stop: "bind_io (lift_io (header_store_parse E (ustr ''Subject'') subj)) f = lift_io (Inl e)"
    for f :: "pystr \<Rightarrow> unit io"
    by (rule ext) (simp add: assms bind_io_def lift_io_def)
  show ?thesis
    unfolding mail_error_def Let_def stop
    by (intro steps_bind steps_with_exit steps_lift steps_smtp_do) simp_all
qed

lemma mail_error_refused_raises:
  assumes "header_store_parse E (ustr ''Subject'') subj = Inl e"
  shows "\<exists>e'. fst (mail_error E cfg msg subj page w) = Inl e'"
  using assms
  by (auto simp: mail_error_def bind_io_def lift_io_def with_exit_def Let_def
      split: sum.splits prod.splits)

text \<open>
  Whatever the exception and the environment, the top-level handler sends no mail, and
  what it raises when the relay answers is the \<^verbatim>\<open>ValueError\<close> of the subject.
\<close>

lemma main_handler_sends_nothing:
  "filter is_mail_sent (new_events w (snd (main_handler E cfg exc w))) = []"
proof -
  have "steps (\<lambda>ev. \<not> is_mail_sent ev) (main_handler E cfg exc)"
    unfolding main_handler_def
    by (intro steps_bind steps_lift steps_raise mail_error_refused [OF fatal_subject_refused])
  from stepsD [OF this, of w] obtain es
    where "trace (snd (main_handler E cfg exc w)) = trace w @ es"
      "list_all (\<lambda>ev. \<not> is_mail_sent ev) es" by blast
  then show ?thesis
    by (simp add: new_events_def list_all_iff filter_empty_conv)
qed

section \<open>Release of the session\<close>

lemma count_none: "list_all (\<lambda>ev. ev \<noteq> x) es \<Longrightarrow> count_list es x = 0"
  by (induction es) auto

lemma quiet_no_close: "quiet (\<lambda>ev. ev \<noteq> Close_session)"
  unfolding quiet_def by auto

lemma Teve_exit_not_logged_in:
  "\<not> logged_in t \<Longrightarrow>
   Teve_exit E t w = (Inr t, snd (close_session w)) \<and>
   count_list (new_events w (snd (close_session w))) Close_session = 1"
  by (auto simp: Teve_exit_def bind_io_def return_io_def close_session_def emit_def
      new_events_def split: option.splits)

lemma Teve_exit_close_count:
  assumes "logged_in t"
  shows "count_list (new_events w (snd (Teve_exit E t w))) Close_session =
     (case fst (request E (Some LOGOUT_LINK) True (ustr ''get'') None w) of
        Inl e \<Rightarrow> 0 | Inr r \<Rightarrow> 1)"
proof -
  let ?rq = "request E (Some LOGOUT_LINK) True (ustr ''get'') None"
  obtain res w1 where r: "?rq w = (res, w1)" by (cases "?rq w")
  have "steps (\<lambda>ev. ev \<noteq> Close_session) ?rq"
    by (rule steps_request) simp
  from stepsD [OF this, of w] obtain es where es: "trace w1 = trace w @ es"
    "count_list es Close_session = 0"
    using r count_none [of Close_session] by fastforce
  show ?thesis
  proof (cases res)
    case (Inl e)
    then have "Teve_exit E t w = (Inl e, w1)"
      using assms r by (simp add: Teve_exit_def bind_io_def)
    then show ?thesis using Inl r es by (simp add: new_events_def)
  next
    case (Inr resp)
    then have "trace (snd (Teve_exit E t w)) =
        trace w1 @ Stdout (ustr ''Kijelentkeztem! :)'' @ [10]) # Close_session #
          (case SESSION w1 of None \<Rightarrow> [] | Some u \<Rightarrow> [Session_exit])"
      using assms r
      by (simp add: Teve_exit_def bind_io_def print_def print_end_def emit_def return_io_def
          close_session_def split: option.splits)
    then show ?thesis using Inr r es by (simp add: new_events_def split: option.splits)
  qed
qed

text \<open>
  How often \<^verbatim>\<open>close_session\<close> is called in a run: never when the object could not be
  built, once when the entry step raised, and after a completed entry once unless the
  logout request raises, in which case it is not called.
\<close>

lemma close_session_count:
  "count_list (new_events w (snd (main E cfg w))) Close_session =
     (case Teve_init cfg of
        Inl e \<Rightarrow> 0
      | Inr t \<Rightarrow>
          (case Teve_enter E t w of
             (Inl e, w1) \<Rightarrow> 1
           | (Inr t', w1) \<Rightarrow>
               (case fst (request E (Some LOGOUT_LINK) True (ustr ''get'') None
                            (snd (bind_io (etet E t') (\<lambda>_. tanit E t') w1))) of
                  Inl e \<Rightarrow> 0
                | Inr r \<Rightarrow> 1)))"
proof -
  let ?P = "\<lambda>ev. ev \<noteq> Close_session"
  obtain es4 where m: "trace (snd (main E cfg w)) = trace (snd (main_try E cfg w)) @ es4"
    and es4: "count_list es4 Close_session = 0"
    using main_after_try [OF quiet_no_close, of E cfg w] count_none [of Close_session] by blast
  show ?thesis
  proof (cases "Teve_init cfg")
    case (Inl e)
    then have "main_try E cfg w = (Inl e, w)"
      by (simp add: main_try_def bind_io_def lift_io_def)
    then have "new_events w (snd (main E cfg w)) = es4"
      using m by (simp add: new_events_def)
    then show ?thesis using es4 Inl by simp
  next
    case (Inr t)
    then have nl: "\<not> logged_in t" by (rule Teve_init_not_logged_in)
    have mt: "main_try E cfg w = workflow E t w"
      using Inr by (simp add: main_try_def bind_io_def lift_io_def)
    obtain r w1 where en: "Teve_enter E t w = (r, w1)" by (cases "Teve_enter E t w")
    obtain rb wb where eb: "enter_body E t w = (rb, wb)" by (cases "enter_body E t w")
    have "steps ?P (enter_body E t)"
      by (rule steps_enter_body [OF quiet_no_close]) simp
    from stepsD [OF this, of w] obtain es1 where es1: "trace wb = trace w @ es1"
      "count_list es1 Close_session = 0"
      using eb count_none [of Close_session] by fastforce
    show ?thesis
    proof (cases r)
      case (Inl e)
      then obtain e0 where rb: "rb = Inl e0"
        using en eb by (cases rb) (auto simp: Teve_enter_def)
      have "w1 = snd (close_session wb)"
        using en eb rb Teve_exit_not_logged_in [OF nl, of E wb]
        by (auto simp: Teve_enter_def)
      moreover have "count_list (new_events wb (snd (close_session wb))) Close_session = 1"
        using Teve_exit_not_logged_in [OF nl, of E wb] by simp
      moreover have "\<exists>es. trace (snd (close_session wb)) = trace wb @ es"
        by (auto simp: close_session_def bind_io_def emit_def return_io_def split: option.splits)
      ultimately obtain es2 where es2: "trace w1 = trace wb @ es2"
        "count_list es2 Close_session = 1"
        by (auto simp: new_events_def)
      have "workflow E t w = (Inl e, w1)"
        using Inl by (simp add: workflow_def bind_io_def en)
      then have "new_events w (snd (main E cfg w)) = es1 @ es2 @ es4"
        using m mt es1 es2 by (simp add: new_events_def)
      then show ?thesis using es1 es2 es4 Inr Inl en by simp
    next
      case r: (Inr t')
      then have b: "enter_body E t w = (Inr t', w1)" using en Teve_enter_Inr by simp
      then have t': "logged_in t'" using enter_body_Inr by fastforce
      have w1: "w1 = wb" using b eb by simp
      let ?body = "bind_io (etet E t') (\<lambda>_. tanit E t')"
      have "steps ?P ?body"
        by (intro steps_bind steps_etet steps_tanit quiet_no_close) simp_all
      from stepsD [OF this, of w1] obtain es2
        where es2: "trace (snd (?body w1)) = trace w1 @ es2" "count_list es2 Close_session = 0"
        using count_none [of Close_session] by fastforce
      have x: "steps (\<lambda>ev. True) (Teve_exit E t')"
        by (rule steps_Teve_exit) (simp_all add: quiet_def)
      from stepsD [OF x, of "snd (?body w1)"] obtain es3
        where es3: "trace (snd (Teve_exit E t' (snd (?body w1)))) = trace (snd (?body w1)) @ es3"
        by blast
      have c3: "count_list es3 Close_session =
          (case fst (request E (Some LOGOUT_LINK) True (ustr ''get'') None (snd (?body w1))) of
             Inl e \<Rightarrow> 0 | Inr r \<Rightarrow> 1)"
        using Teve_exit_close_count [OF t', of "snd (?body w1)" E] es3
        by (simp add: new_events_def)
      have "snd (workflow E t w) = snd (Teve_exit E t' (snd (?body w1)))"
        using en r by (simp add: workflow_entered with_exit_snd bind_return_snd)
      then have "new_events w (snd (main E cfg w)) = es1 @ es2 @ es3 @ es4"
        using m mt es1 es2 es3 w1 by (simp add: new_events_def)
      then show ?thesis using es1 es2 c3 es4 Inr r en by simp
    qed
  qed
qed

end
